theory Spec2Isabelle
  imports Main "HOL-Library.Word"
begin

unbundle bit_operations_syntax

section \<open>The operating-system interface used by \<^verbatim>\<open>main.py\<close>\<close>

text \<open>
  \<^verbatim>\<open>main.py\<close> is an orchestration layer: every function of it reads or changes the
  filesystem through \<^verbatim>\<open>os\<close>, \<^verbatim>\<open>shutil\<close>, \<^verbatim>\<open>aiofiles\<close> and \<^verbatim>\<open>io\<close>. The filesystem is an
  explicit value that each operation takes and returns; every exception is a value.
  One request is followed from its first statement to its last; the \<^verbatim>\<open>await\<close> points
  of a single request run in source order. Console output (\<^verbatim>\<open>print\<close>,
  \<^verbatim>\<open>__print_without_chars\<close>, \<^verbatim>\<open>logging.debug\<close>) is not part of the model.
\<close>

text \<open>
  A Python \<^verbatim>\<open>str\<close> is modelled by its UTF-8 encoding, one \<^typ>\<open>char\<close> for each byte: a file
  name, a path and a message are \<^typ>\<open>string\<close>s. The separators \<^verbatim>\<open>/\<close> and \<^verbatim>\<open>.\<close> are single
  bytes that occur in no longer sequence, so splitting and joining act on the bytes
  as they do on the characters. Where the characters themselves matter, the bytes
  are decoded (\<open>code_points\<close> below).
\<close>

type_synonym path = string
type_synonym byte = "8 word"

text \<open>Python exceptions, with the message where the code formats it into a response.\<close>

datatype exn =
    HTTPException int string
  | ValueError string
  | RuntimeError string
  | FileNotFoundError path
  | IsADirectoryError path
  | NotADirectoryError path
  | PermissionError path
  | OtherException string

text \<open>
  A filesystem entry is a regular file (bytes and permission bits, the low bits of
  \<^verbatim>\<open>st_mode\<close>) or a directory. The filesystem maps absolute path strings to entries;
  links are not modelled, the permission bits of a directory are not consulted when
  an entry of it is created, renamed or removed, and the disk does not fill up.
\<close>

datatype node =
    RegularFile (content: "byte list") (perm: int)
  | Directory (perm: int)

type_synonym filesystem = "path \<Rightarrow> node option"

text \<open>What the serving process contributes to path resolution and file creation.\<close>

record process =
  cwd :: path
  umask :: int

definition F_OK :: int where "F_OK = 0"
definition R_OK :: int where "R_OK = 4"
definition W_OK :: int where "W_OK = 2"
definition X_OK :: int where "X_OK = 1"

subsection \<open>Paths\<close>

definition isabs :: "path \<Rightarrow> bool" where
  "isabs p = (take 1 p = ''/'')"

text \<open>\<^verbatim>\<open>os.path.join(a, b)\<close> for two components.\<close>

definition os_path_join :: "path \<Rightarrow> path \<Rightarrow> path" where
  "os_path_join a b =
     (if isabs b then b
      else if a = [] \<or> last a = CHR ''/'' then a @ b
      else a @ ''/'' @ b)"

text \<open>The path the kernel looks up for an argument of a system call: relative
  arguments start at the working directory.\<close>

definition resolve :: "process \<Rightarrow> path \<Rightarrow> path" where
  "resolve env p = (if isabs p then p else os_path_join (cwd env) p)"

text \<open>\<^verbatim>\<open>str.split(sep)\<close> and \<^verbatim>\<open>sep.join(parts)\<close> for a one-character separator.\<close>

fun split_sep :: "char \<Rightarrow> string \<Rightarrow> string list" where
  "split_sep c [] = [[]]"
| "split_sep c (x # xs) =
     (if x = c then [] # split_sep c xs
      else (case split_sep c xs of [] \<Rightarrow> [[x]] | w # ws \<Rightarrow> (x # w) # ws))"

fun join_sep :: "char \<Rightarrow> string list \<Rightarrow> string" where
  "join_sep c [] = []"
| "join_sep c [w] = w"
| "join_sep c (w # ws) = w @ c # join_sep c ws"

text \<open>\<^verbatim>\<open>posixpath.normpath\<close>: the loop body over the components, the count of leading
  slashes that are kept, then the function.\<close>

definition norm_step :: "nat \<Rightarrow> string list \<Rightarrow> string \<Rightarrow> string list" where
  "norm_step initial_slashes new_comps part =
     (if part = [] \<or> part = ''.'' then new_comps
      else if part \<noteq> ''..'' \<or> (initial_slashes = 0 \<and> new_comps = [])
                \<or> (new_comps \<noteq> [] \<and> last new_comps = ''..'')
           then new_comps @ [part]
      else if new_comps \<noteq> [] then butlast new_comps
      else new_comps)"

definition initial_slashes_of :: "path \<Rightarrow> nat" where
  "initial_slashes_of p =
     (if take 1 p = ''/''
      then (if take 2 p = ''//'' \<and> take 3 p \<noteq> ''///'' then 2 else 1)
      else 0)"

definition normpath :: "path \<Rightarrow> path" where
  "normpath p =
     (if p = [] then ''.''
      else
        let initial_slashes = initial_slashes_of p;
            comps = foldl (norm_step initial_slashes) [] (split_sep CHR ''/'' p);
            joined = replicate initial_slashes CHR ''/'' @ join_sep CHR ''/'' comps
        in if joined = [] then ''.'' else joined)"

definition os_path_abspath :: "process \<Rightarrow> path \<Rightarrow> path" where
  "os_path_abspath env p =
     normpath (if isabs p then p else os_path_join (cwd env) p)"

text \<open>\<^verbatim>\<open>posixpath.dirname\<close>: the directory a path's last component lives in.\<close>

definition os_path_dirname :: "path \<Rightarrow> path" where
  "os_path_dirname p =
     (let head = rev (dropWhile (\<lambda>c. c \<noteq> CHR ''/'') (rev p))
      in if head \<noteq> [] \<and> head \<noteq> replicate (length head) CHR ''/''
         then rev (dropWhile (\<lambda>c. c = CHR ''/'') (rev head))
         else head)"

text \<open>\<^verbatim>\<open>str.rfind\<close> for one character (\<open>-1\<close> when absent) and \<^verbatim>\<open>os.path.splitext\<close>,
  which ignores the dots that lead the last component.\<close>

definition rfind :: "string \<Rightarrow> char \<Rightarrow> int" where
  "rfind s c =
     (case filter (\<lambda>i. s ! i = c) (rev [0..<length s]) of
        [] \<Rightarrow> - 1
      | i # _ \<Rightarrow> int i)"

definition os_path_splitext :: "path \<Rightarrow> path \<times> string" where
  "os_path_splitext p =
     (let sepIndex = rfind p CHR ''/'';
          dotIndex = rfind p CHR ''.''
      in if dotIndex > sepIndex
            \<and> list_ex (\<lambda>k. p ! k \<noteq> CHR ''.'') [nat (sepIndex + 1)..<nat dotIndex]
         then (take (nat dotIndex) p, drop (nat dotIndex) p)
         else (p, []))"

subsection \<open>Queries\<close>

definition os_path_exists :: "process \<Rightarrow> filesystem \<Rightarrow> path \<Rightarrow> bool" where
  "os_path_exists env fs p = (fs (resolve env p) \<noteq> None)"

definition os_path_isfile :: "process \<Rightarrow> filesystem \<Rightarrow> path \<Rightarrow> bool" where
  "os_path_isfile env fs p =
     (case fs (resolve env p) of Some (RegularFile _ _) \<Rightarrow> True | _ \<Rightarrow> False)"

text \<open>
  \<^verbatim>\<open>os.access(path, mode)\<close>: every requested bit is granted. The serving process is
  taken to be the unprivileged owner of the entries it asks about, so the granted
  bits are the owner's \<open>rwx\<close> triple of the permission bits.
\<close>

definition owner_bits :: "int \<Rightarrow> int" where
  "owner_bits m = drop_bit 6 m AND 7"

definition os_access :: "process \<Rightarrow> filesystem \<Rightarrow> path \<Rightarrow> int \<Rightarrow> bool" where
  "os_access env fs p mode =
     (case fs (resolve env p) of
        None \<Rightarrow> False
      | Some n \<Rightarrow> mode AND owner_bits (perm n) = mode)"

subsection \<open>Updates\<close>

text \<open>\<^verbatim>\<open>os.remove\<close> unlinks a file and refuses a directory.\<close>

definition os_remove :: "process \<Rightarrow> filesystem \<Rightarrow> path \<Rightarrow> exn + filesystem" where
  "os_remove env fs p =
     (case fs (resolve env p) of
        None \<Rightarrow> Inl (FileNotFoundError p)
      | Some (Directory _) \<Rightarrow> Inl (IsADirectoryError p)
      | Some (RegularFile _ _) \<Rightarrow> Inr (fs(resolve env p := None)))"

text \<open>
  \<^verbatim>\<open>open(p, "wb")\<close>, one \<^verbatim>\<open>write\<close> of all the bytes, \<^verbatim>\<open>flush\<close> and close. An existing
  file is truncated and keeps its permission bits; a new one is created in an
  existing directory with \<open>0o666\<close> masked by the umask.
\<close>

definition write_file :: "process \<Rightarrow> filesystem \<Rightarrow> path \<Rightarrow> byte list \<Rightarrow> exn + filesystem" where
  "write_file env fs p bs =
     (case fs (resolve env p) of
        Some (Directory _) \<Rightarrow> Inl (IsADirectoryError p)
      | Some (RegularFile _ m) \<Rightarrow>
          if W_OK AND owner_bits m = W_OK
          then Inr (fs(resolve env p \<mapsto> RegularFile bs m))
          else Inl (PermissionError p)
      | None \<Rightarrow>
          (case fs (os_path_dirname (resolve env p)) of
             None \<Rightarrow> Inl (FileNotFoundError p)
           | Some (RegularFile _ _) \<Rightarrow> Inl (NotADirectoryError p)
           | Some (Directory _) \<Rightarrow>
               Inr (fs(resolve env p \<mapsto> RegularFile bs (438 AND NOT (umask env))))))"

text \<open>\<^verbatim>\<open>open(p, "rb")\<close> and one \<^verbatim>\<open>read()\<close> of the whole file.\<close>

definition read_file :: "process \<Rightarrow> filesystem \<Rightarrow> path \<Rightarrow> exn + byte list" where
  "read_file env fs p =
     (case fs (resolve env p) of
        None \<Rightarrow> Inl (FileNotFoundError p)
      | Some (Directory _) \<Rightarrow> Inl (IsADirectoryError p)
      | Some (RegularFile bs m) \<Rightarrow>
          if R_OK AND owner_bits m = R_OK then Inr bs else Inl (PermissionError p))"

text \<open>\<^verbatim>\<open>shutil.copymode(src, dst)\<close>: the permission bits of \<open>src\<close> are set on \<open>dst\<close>.\<close>

definition shutil_copymode :: "process \<Rightarrow> filesystem \<Rightarrow> path \<Rightarrow> path \<Rightarrow> exn + filesystem" where
  "shutil_copymode env fs src dst =
     (case fs (resolve env src) of
        None \<Rightarrow> Inl (FileNotFoundError src)
      | Some s \<Rightarrow>
          (case fs (resolve env dst) of
             None \<Rightarrow> Inl (FileNotFoundError dst)
           | Some (RegularFile bs _) \<Rightarrow> Inr (fs(resolve env dst \<mapsto> RegularFile bs (perm s)))
           | Some (Directory _) \<Rightarrow> Inr (fs(resolve env dst \<mapsto> Directory (perm s)))))"

text \<open>\<^verbatim>\<open>os.rename(src, dst)\<close>: \<open>dst\<close> is replaced; a file does not replace a directory
  nor a directory a file.\<close>

definition os_rename :: "process \<Rightarrow> filesystem \<Rightarrow> path \<Rightarrow> path \<Rightarrow> exn + filesystem" where
  "os_rename env fs src dst =
     (case fs (resolve env src) of
        None \<Rightarrow> Inl (FileNotFoundError src)
      | Some (RegularFile bs m) \<Rightarrow>
          (case fs (resolve env dst) of
             Some (Directory _) \<Rightarrow> Inl (IsADirectoryError dst)
           | _ \<Rightarrow> Inr ((fs(resolve env src := None))(resolve env dst \<mapsto> RegularFile bs m)))
      | Some (Directory m) \<Rightarrow>
          (case fs (resolve env dst) of
             Some (RegularFile _ _) \<Rightarrow> Inl (NotADirectoryError dst)
           | _ \<Rightarrow> Inr ((fs(resolve env src := None))(resolve env dst \<mapsto> Directory m))))"

subsection \<open>Characters and the Latin-1 codec\<close>

text \<open>The code points of a string given by its UTF-8 bytes: a lead byte tells how
  many continuation bytes follow, each of which carries six bits.\<close>

definition continuation :: "nat \<Rightarrow> string \<Rightarrow> nat" where
  "continuation lead cs = foldl (\<lambda>acc c. acc * 64 + of_char c mod 64) lead cs"

function code_points :: "string \<Rightarrow> nat list" where
  "code_points [] = []"
| "code_points (c # cs) =
     (if of_char c < (128::nat) then of_char c # code_points cs
      else if of_char c < (224::nat)
        then continuation (of_char c mod 32) (take 1 cs) # code_points (drop 1 cs)
      else if of_char c < (240::nat)
        then continuation (of_char c mod 16) (take 2 cs) # code_points (drop 2 cs)
      else continuation (of_char c mod 8) (take 3 cs) # code_points (drop 3 cs))"
  by pat_completeness auto
termination
  by (relation "measure length") auto

text \<open>Decimal numerals, hexadecimal numerals with one digit for each of the given
  places, and Python's escape of a character in the text of a \<^verbatim>\<open>UnicodeEncodeError\<close>
  (two, four or eight hexadecimal digits).\<close>

definition hex_digit :: "nat \<Rightarrow> char" where
  "hex_digit d = ''0123456789abcdef'' ! (d mod 16)"

function decimal :: "nat \<Rightarrow> string" where
  "decimal n = (if n < 10 then [hex_digit n] else decimal (n div 10) @ [hex_digit (n mod 10)])"
  by pat_completeness auto
termination
  by (relation "measure id") auto

definition hex_places :: "nat list \<Rightarrow> nat \<Rightarrow> string" where
  "hex_places places n = map (\<lambda>p. hex_digit (n div p)) places"

definition squote :: string where
  "squote = [CHR 0x27]"

definition bslash :: string where
  "bslash = [CHR 0x5C]"

definition escape_char :: "nat \<Rightarrow> string" where
  "escape_char cp =
     (if cp \<le> 255 then bslash @ ''x'' @ hex_places [16, 1] cp
      else if cp \<le> 65535 then bslash @ ''u'' @ hex_places [4096, 256, 16, 1] cp
      else bslash @ ''U''
             @ hex_places [268435456, 16777216, 1048576, 65536, 4096, 256, 16, 1] cp)"

text \<open>
  \<^verbatim>\<open>s.encode("latin-1")\<close>: the code points when all are below 256. Otherwise a
  \<^verbatim>\<open>UnicodeEncodeError\<close> for the first run of characters that are not; it is a
  \<^verbatim>\<open>ValueError\<close>, and is modelled as one that carries the text of \<^verbatim>\<open>str(e)\<close>.
\<close>

definition encode_latin1 :: "string \<Rightarrow> exn + nat list" where
  "encode_latin1 s =
     (let cps = code_points s;
          start = length (takeWhile (\<lambda>cp. cp < 256) cps)
      in if start = length cps then Inr cps
         else
           let stop = start + length (takeWhile (\<lambda>cp. 256 \<le> cp) (drop start cps))
           in Inl (ValueError
                (squote @ ''latin-1'' @ squote @ '' codec can't encode ''
                 @ (if stop = start + 1
                    then ''character '' @ squote @ escape_char (cps ! start) @ squote
                         @ '' in position '' @ decimal start
                    else ''characters in position '' @ decimal start @ ''-''
                         @ decimal (stop - 1))
                 @ '': ordinal not in range(256)'')))"

subsection \<open>\<^verbatim>\<open>io.BytesIO\<close>\<close>

record bytesio =
  buffer :: "byte list"
  position :: nat

definition io_BytesIO :: bytesio where
  "io_BytesIO = \<lparr>buffer = [], position = 0\<rparr>"

text \<open>\<^verbatim>\<open>write\<close> overwrites from the position, zero-filling a gap, and advances.\<close>

definition bytesio_write :: "bytesio \<Rightarrow> byte list \<Rightarrow> bytesio" where
  "bytesio_write b bs =
     \<lparr>buffer = take (position b) (buffer b)
               @ replicate (position b - length (buffer b)) 0
               @ bs
               @ drop (position b + length bs) (buffer b),
      position = position b + length bs\<rparr>"

definition bytesio_seek :: "bytesio \<Rightarrow> nat \<Rightarrow> bytesio" where
  "bytesio_seek b n = b\<lparr>position := n\<rparr>"

text \<open>What a reader of the buffer gets: the bytes from the position on.\<close>

definition bytesio_read :: "bytesio \<Rightarrow> byte list" where
  "bytesio_read b = drop (position b) (buffer b)"

section \<open>The metadata engine (\<^verbatim>\<open>libmat2\<close>)\<close>

text \<open>
  The engine is an external library. Its parser objects carry the attributes that
  \<^verbatim>\<open>main.py\<close> assigns and reads; what its three operations compute is a parameter of
  every function below.
\<close>

datatype UnknownMemberPolicy = ABORT | OMIT | KEEP

record parser =
  p_filename :: path
  p_output_filename :: path
  p_unknown_member_policy :: UnknownMemberPolicy
  p_lightweight_cleaning :: bool
  p_sandbox :: bool

type_synonym metadata = "(string \<times> string) list"

text \<open>
  \<^verbatim>\<open>parser_factory.get_parser\<close> inspects the file and returns a parser or \<open>None\<close>,
  with the detected type (itself possibly \<open>None\<close>); \<^verbatim>\<open>p.get_meta()\<close> and
  \<^verbatim>\<open>p.remove_all()\<close> see the parser as it is at the call and may change the filesystem.
\<close>

record engine =
  get_parser :: "filesystem \<Rightarrow> path \<Rightarrow> exn + (parser option \<times> string option)"
  parser_get_meta :: "parser \<Rightarrow> filesystem \<Rightarrow> (exn + metadata) \<times> filesystem"
  parser_remove_all :: "parser \<Rightarrow> filesystem \<Rightarrow> (exn + bool) \<times> filesystem"

text \<open>
  Where a call executes: on the thread of the event loop that handles requests, or
  in a process of the pool. Every engine call is recorded with its place and, for
  the two parser operations, with the parser as it is when the call is made.
\<close>

datatype site = EventLoopThread | PoolProcess

datatype engine_call =
    GetParser site path
  | GetMeta site parser
  | RemoveAll site parser

record world =
  fs :: filesystem
  calls :: "engine_call list"

definition record_call :: "engine_call \<Rightarrow> world \<Rightarrow> world" where
  "record_call c w = w\<lparr>calls := calls w @ [c]\<rparr>"

text \<open>The double-quote character of the \<^verbatim>\<open>Content-Disposition\<close> header.\<close>

definition dquote :: string where
  "dquote = [CHR 0x22]"

text \<open>\<^verbatim>\<open>str.format\<close> with one argument that may be \<open>None\<close>.\<close>

definition format_opt :: "string option \<Rightarrow> string" where
  "format_opt x = (case x of None \<Rightarrow> ''None'' | Some s \<Rightarrow> s)"

section \<open>\<^verbatim>\<open>main.py\<close>\<close>

text \<open>Line 97 and line 167: \<^verbatim>\<open>f'{uuid.uuid4()}{file.filename}'\<close>, the UUID string
  being drawn by the caller.\<close>

definition artifact_name :: "string \<Rightarrow> string \<Rightarrow> path" where
  "artifact_name u file_filename = u @ file_filename"

text \<open>\<^verbatim>\<open>__check_file\<close>; its default \<open>mode\<close> is \<open>os.R_OK\<close>.\<close>

definition check_file :: "process \<Rightarrow> filesystem \<Rightarrow> path \<Rightarrow> int \<Rightarrow> bool" where
  "check_file env f filename mode =
     (if \<not> os_path_exists env f filename then False
      else if \<not> os_path_isfile env f filename then False
      else if \<not> os_access env f filename mode then False
      else True)"

text \<open>\<^verbatim>\<open>get_meta\<close>, executed at \<open>st\<close>.\<close>

definition get_meta ::
  "process \<Rightarrow> engine \<Rightarrow> site \<Rightarrow> world \<Rightarrow> path \<Rightarrow> bool \<Rightarrow> (exn + metadata) \<times> world" where
  "get_meta env e st w filename sandbox =
     (if \<not> check_file env (fs w) filename R_OK
      then (Inl (HTTPException 500 ''File error''), w)
      else
        let w1 = record_call (GetParser st filename) w in
        (case get_parser e (fs w) filename of
           Inl (ValueError msg) \<Rightarrow>
             (Inl (HTTPException 400 (''something went wrong during processing: '' @ msg)), w1)
         | Inl ex \<Rightarrow> (Inl ex, w1)
         | Inr (None, mtype) \<Rightarrow>
             (Inl (HTTPException 400 (''format ('' @ format_opt mtype @ '') is not supported'')), w1)
         | Inr (Some p, mtype) \<Rightarrow>
             (let p1 = p\<lparr>p_sandbox := sandbox\<rparr>;
                  w2 = record_call (GetMeta st p1) w1;
                  (r, f) = parser_get_meta e p1 (fs w2)
              in (r, w2\<lparr>fs := f\<rparr>))))"

text \<open>\<^verbatim>\<open>clean_meta\<close>, executed at \<open>st\<close>. A \<^verbatim>\<open>RuntimeError\<close> of the \<^verbatim>\<open>try\<close> block is
  wrapped; any other exception of \<^verbatim>\<open>remove_all\<close>, \<^verbatim>\<open>copymode\<close> or \<^verbatim>\<open>rename\<close> leaves the
  function as it is.\<close>

definition clean_meta ::
  "process \<Rightarrow> engine \<Rightarrow> site \<Rightarrow> world \<Rightarrow> path \<Rightarrow> bool \<Rightarrow> bool \<Rightarrow> bool \<Rightarrow> UnknownMemberPolicy
     \<Rightarrow> (exn + bool) \<times> world" where
  "clean_meta env e st w filename is_lightweight inplace sandbox policy =
     (let mode = (if inplace then R_OK OR W_OK else R_OK) in
      if \<not> check_file env (fs w) filename mode then (Inr False, w)
      else
        let w1 = record_call (GetParser st filename) w in
        (case get_parser e (fs w) filename of
           Inl (ValueError msg) \<Rightarrow>
             (Inl (ValueError (''something went wrong during cleaning: '' @ msg)), w1)
         | Inl ex \<Rightarrow> (Inl ex, w1)
         | Inr (None, mtype) \<Rightarrow>
             (Inl (ValueError (''format ('' @ format_opt mtype @ '') is not supported'')), w1)
         | Inr (Some p, mtype) \<Rightarrow>
             (let p1 = p\<lparr>p_unknown_member_policy := policy\<rparr>;
                  p2 = p1\<lparr>p_lightweight_cleaning := is_lightweight\<rparr>;
                  p3 = p2\<lparr>p_sandbox := sandbox\<rparr>;
                  w2 = record_call (RemoveAll st p3) w1;
                  (r, f) = parser_remove_all e p3 (fs w2);
                  w3 = w2\<lparr>fs := f\<rparr>
              in (case r of
                    Inl (RuntimeError msg) \<Rightarrow>
                      (Inl (RuntimeError (''can't be cleaned: '' @ msg)), w3)
                  | Inl ex \<Rightarrow> (Inl ex, w3)
                  | Inr ret \<Rightarrow>
                      if ret then
                        (case shutil_copymode env (fs w3) filename (p_output_filename p3) of
                           Inl ex \<Rightarrow> (Inl ex, w3)
                         | Inr f1 \<Rightarrow>
                             if inplace then
                               (case os_rename env f1 (p_output_filename p3) filename of
                                  Inl ex \<Rightarrow> (Inl ex, w3\<lparr>fs := f1\<rparr>)
                                | Inr f2 \<Rightarrow> (Inr ret, w3\<lparr>fs := f2\<rparr>))
                             else (Inr ret, w3\<lparr>fs := f1\<rparr>))
                      else (Inr ret, w3)))))"

text \<open>\<^verbatim>\<open>cache_delete_file\<close>. A Python function may return \<open>None\<close>, and \<^verbatim>\<open>clean\<close> tests
  for it, so the result is an option.\<close>

definition cache_delete_file ::
  "process \<Rightarrow> world \<Rightarrow> path \<Rightarrow> (exn + bytesio option) \<times> world" where
  "cache_delete_file env w filename =
     (let cached_file = io_BytesIO in
      (case read_file env (fs w) (os_path_abspath env filename) of
         Inl ex \<Rightarrow> (Inl ex, w)
       | Inr bs \<Rightarrow>
           (let cached_file1 = bytesio_write cached_file bs;
                cached_file2 = bytesio_seek cached_file1 0
            in (case os_remove env (fs w) (os_path_abspath env filename) of
                  Inl ex \<Rightarrow> (Inl ex, w)
                | Inr f \<Rightarrow> (Inr (Some cached_file2), w\<lparr>fs := f\<rparr>)))))"

subsection \<open>The two endpoints\<close>

datatype response =
    JSONResponse metadata string
  | StreamingResponse bytesio string string

text \<open>How a \<^verbatim>\<open>try\<close> block is left before its \<^verbatim>\<open>finally\<close> clause runs.\<close>

datatype outcome = Returned response | Raised exn | FellThrough

text \<open>\<^verbatim>\<open>loop.run_in_executor(pool, fn, *args)\<close>, awaited: \<open>fn\<close> runs in a process of the
  pool and its result or exception comes back to the caller.\<close>

definition run_in_executor :: "(site \<Rightarrow> world \<Rightarrow> 'a \<times> world) \<Rightarrow> world \<Rightarrow> 'a \<times> world" where
  "run_in_executor fn w = fn PoolProcess w"

text \<open>\<^verbatim>\<open>await coro(...)\<close>: the coroutine runs on the thread of the caller.\<close>

definition await_here :: "(site \<Rightarrow> world \<Rightarrow> 'a \<times> world) \<Rightarrow> world \<Rightarrow> 'a \<times> world" where
  "await_here fn w = fn EventLoopThread w"

text \<open>The body of \<^verbatim>\<open>show\<close> from its \<^verbatim>\<open>try\<close> on (lines 101 to 112).\<close>

definition show_try ::
  "process \<Rightarrow> engine \<Rightarrow> world \<Rightarrow> path \<Rightarrow> bool \<Rightarrow> (exn + response) \<times> world" where
  "show_try env e w filename sandbox =
     (let (r, w1) = await_here (\<lambda>st w'. get_meta env e st w' (os_path_abspath env filename) sandbox) w;
          res = (case r of
                   Inr md \<Rightarrow> Inr (JSONResponse md ''text/plain'')
                 | Inl (HTTPException code detail) \<Rightarrow> Inl (HTTPException code detail)
                 | Inl _ \<Rightarrow> Inl (HTTPException 500 ''Metadata cannot be extracted''))
      in (case os_remove env (fs w1) filename of
            Inl ex \<Rightarrow> (Inl ex, w1)
          | Inr f \<Rightarrow> (res, w1\<lparr>fs := f\<rparr>)))"

text \<open>\<^verbatim>\<open>show\<close>: the upload \<open>(file_filename, body)\<close> is written before the \<^verbatim>\<open>try\<close>.\<close>

definition "show" ::
  "process \<Rightarrow> engine \<Rightarrow> world \<Rightarrow> string \<Rightarrow> string \<Rightarrow> byte list \<Rightarrow> bool
     \<Rightarrow> (exn + response) \<times> world" where
  "show env e w u file_filename body sandbox =
     (let filename = artifact_name u file_filename in
      (case write_file env (fs w) filename body of
         Inl ex \<Rightarrow> (Inl ex, w)
       | Inr f \<Rightarrow> show_try env e (w\<lparr>fs := f\<rparr>) filename sandbox))"

text \<open>The \<^verbatim>\<open>finally\<close> clause of \<^verbatim>\<open>clean\<close> (lines 194 to 196), entered with the outcome
  \<open>out\<close> of the \<^verbatim>\<open>try\<close> block and its handlers; an exception of the clause replaces it.\<close>

definition clean_finally :: "process \<Rightarrow> world \<Rightarrow> path \<Rightarrow> outcome \<Rightarrow> outcome \<times> world" where
  "clean_finally env w filename out =
     (if os_path_isfile env (fs w) (os_path_abspath env filename)
      then (case os_remove env (fs w) (os_path_abspath env filename) of
              Inl ex \<Rightarrow> (Raised ex, w)
            | Inr f \<Rightarrow> (out, w\<lparr>fs := f\<rparr>))
      else (out, w))"

text \<open>
  The constructor call \<^verbatim>\<open>StreamingResponse(content, media_type=..., headers=...)\<close> with the
  one header \<^verbatim>\<open>Content-Disposition\<close>: the framework encodes the value of the header in
  Latin-1 when the response object is built, and the call raises when that fails.
  The media type is a constant of the code, in ASCII.
\<close>

definition new_StreamingResponse :: "bytesio \<Rightarrow> string \<Rightarrow> string \<Rightarrow> exn + response" where
  "new_StreamingResponse stream media_type content_disposition =
     (case encode_latin1 content_disposition of
        Inl ex \<Rightarrow> Inl ex
      | Inr _ \<Rightarrow> Inr (StreamingResponse stream media_type content_disposition))"

text \<open>The \<^verbatim>\<open>try\<close> block of \<^verbatim>\<open>clean\<close> (lines 180 to 189).\<close>

definition clean_body ::
  "process \<Rightarrow> engine \<Rightarrow> world \<Rightarrow> path \<Rightarrow> string \<Rightarrow> string \<Rightarrow> bool \<Rightarrow> bool \<Rightarrow> UnknownMemberPolicy
     \<Rightarrow> outcome \<times> world" where
  "clean_body env e w filename prefix extension lightweight sandbox policy =
     (let (is_success, w1) =
            run_in_executor
              (\<lambda>st w'. clean_meta env e st w' (os_path_abspath env filename)
                          lightweight True sandbox policy) w
      in (case is_success of
            Inl ex \<Rightarrow> (Raised ex, w1)
          | Inr False \<Rightarrow> (FellThrough, w1)
          | Inr True \<Rightarrow>
              (case cache_delete_file env w1 filename of
                 (Inl ex, w2) \<Rightarrow> (Raised ex, w2)
               | (Inr None, w2) \<Rightarrow> (FellThrough, w2)
               | (Inr (Some data), w2) \<Rightarrow>
                   (case new_StreamingResponse data ''application/octet-stream''
                           (''attachment; filename='' @ dquote @ prefix @ ''_metaclean''
                              @ extension @ dquote) of
                      Inl ex \<Rightarrow> (Raised ex, w2)
                    | Inr resp \<Rightarrow> (Returned resp, w2)))))"

text \<open>The \<^verbatim>\<open>except\<close> clauses of \<^verbatim>\<open>clean\<close> (lines 190 to 193).\<close>

definition clean_except :: "outcome \<Rightarrow> outcome" where
  "clean_except out =
     (case out of
        Raised (ValueError msg) \<Rightarrow> Raised (HTTPException 400 msg)
      | Raised (RuntimeError msg) \<Rightarrow> Raised (HTTPException 400 msg)
      | _ \<Rightarrow> out)"

text \<open>\<^verbatim>\<open>clean\<close> from its \<^verbatim>\<open>try\<close> on (lines 177 to 198): block, handlers, \<^verbatim>\<open>finally\<close>
  clause, and the \<^verbatim>\<open>raise\<close> that follows the statement.\<close>

definition clean_try ::
  "process \<Rightarrow> engine \<Rightarrow> world \<Rightarrow> path \<Rightarrow> string \<Rightarrow> string \<Rightarrow> bool \<Rightarrow> bool \<Rightarrow> UnknownMemberPolicy
     \<Rightarrow> (exn + response) \<times> world" where
  "clean_try env e w filename prefix extension lightweight sandbox policy =
     (let (out, w1) = clean_body env e w filename prefix extension lightweight sandbox policy;
          (out1, w2) = clean_finally env w1 filename (clean_except out)
      in (case out1 of
            Returned resp \<Rightarrow> (Inr resp, w2)
          | Raised ex \<Rightarrow> (Inl ex, w2)
          | FellThrough \<Rightarrow> (Inl (HTTPException 400 ''Failed to remove metadata''), w2)))"

text \<open>\<^verbatim>\<open>clean\<close>: the upload is written and the name split before the \<^verbatim>\<open>try\<close>.\<close>

definition clean ::
  "process \<Rightarrow> engine \<Rightarrow> world \<Rightarrow> string \<Rightarrow> string \<Rightarrow> byte list \<Rightarrow> bool \<Rightarrow> UnknownMemberPolicy \<Rightarrow> bool
     \<Rightarrow> (exn + response) \<times> world" where
  "clean env e w u file_filename body lightweight unknown_members sandbox =
     (let filename = artifact_name u file_filename in
      (case write_file env (fs w) filename body of
         Inl ex \<Rightarrow> (Inl ex, w)
       | Inr f \<Rightarrow>
           (let (prefix, extension) = os_path_splitext file_filename;
                policy = unknown_members
            in clean_try env e (w\<lparr>fs := f\<rparr>) filename prefix extension lightweight sandbox
                 policy)))"

section \<open>Vocabulary of the properties\<close>

text \<open>
  The working directory as \<^verbatim>\<open>os.getcwd()\<close> reports it: absolute, already normal, and
  without a trailing slash unless it is the root.
\<close>

definition proper_cwd :: "process \<Rightarrow> bool" where
  "proper_cwd env =
     (isabs (cwd env) \<and> normpath (cwd env) = cwd env
      \<and> (cwd env = ''/'' \<or> last (cwd env) \<noteq> CHR ''/''))"

text \<open>A single path component that names an entry of its directory.\<close>

definition plain_name :: "string \<Rightarrow> bool" where
  "plain_name n = (n \<noteq> [] \<and> n \<noteq> ''.'' \<and> n \<noteq> ''..'' \<and> CHR ''/'' \<notin> set n)"

text \<open>The text of \<^verbatim>\<open>str(uuid.uuid4())\<close>: 36 characters, hexadecimal digits and dashes.\<close>

definition uuid_text :: "string \<Rightarrow> bool" where
  "uuid_text u = (length u = 36 \<and> set u \<subseteq> set ''0123456789abcdef-'')"

text \<open>Where a recorded engine call was executed.\<close>

fun call_site :: "engine_call \<Rightarrow> site" where
  "call_site (GetParser st _) = st"
| "call_site (GetMeta st _) = st"
| "call_site (RemoveAll st _) = st"

section \<open>Concrete requests\<close>

text \<open>
  A serving process in \<^verbatim>\<open>/srv/app\<close> with umask \<open>0o022\<close>, and one whose umask \<open>0o777\<close>
  creates files without any permission bit; a disk that holds the working directory;
  an engine that knows one format, recognised by the magic bytes \<^verbatim>\<open>%PDF\<close>. Its
  extraction reports a creator and whether the parser's sandbox flag is set. Its
  cleaning writes the first four bytes of the file to its output path, and refuses
  under policy \<open>ABORT\<close>, as it would for a member it cannot classify.
\<close>

definition app_process :: process where
  "app_process = \<lparr>cwd = ''/srv/app'', umask = 18\<rparr>"

definition sealed_process :: process where
  "sealed_process = \<lparr>cwd = ''/srv/app'', umask = 511\<rparr>"

definition app_disk :: filesystem where
  "app_disk = Map.empty(''/srv/app'' \<mapsto> Directory 493)"

definition idle_world :: world where
  "idle_world = \<lparr>fs = app_disk, calls = []\<rparr>"

definition request_uuid :: string where
  "request_uuid = ''3f2b8c1e-7a4d-4e9b-9c2f-5d6a7b8c9d0e''"

definition pdf_magic :: "byte list" where
  "pdf_magic = [37, 80, 68, 70]"

definition pdf_body :: "byte list" where
  "pdf_body = [37, 80, 68, 70, 45, 49]"

definition text_body :: "byte list" where
  "text_body = [104, 105]"

definition pdf_parser :: "path \<Rightarrow> parser" where
  "pdf_parser p =
     \<lparr>p_filename = p, p_output_filename = p @ ''.cleaned'',
      p_unknown_member_policy = ABORT, p_lightweight_cleaning = False, p_sandbox = True\<rparr>"

definition pdf_engine :: engine where
  "pdf_engine =
     \<lparr>get_parser = (\<lambda>f p.
        case f p of
          Some (RegularFile bs _) \<Rightarrow>
            if take 4 bs = pdf_magic then Inr (Some (pdf_parser p), Some ''application/pdf'')
            else Inr (None, Some ''text/plain'')
        | _ \<Rightarrow> Inl (ValueError ''not a file'')),
      parser_get_meta = (\<lambda>p f.
        (Inr [(''creator'', ''writer''), (''sandbox'', if p_sandbox p then ''on'' else ''off'')],
         f)),
      parser_remove_all = (\<lambda>p f.
        if p_unknown_member_policy p = ABORT then (Inr False, f)
        else
          (case f (p_filename p) of
             Some (RegularFile bs m) \<Rightarrow>
               (Inr True, f(p_output_filename p \<mapsto> RegularFile (take 4 bs) 384))
           | _ \<Rightarrow> (Inl (RuntimeError ''input vanished''), f)))\<rparr>"

text \<open>An engine that answers as \<open>pdf_engine\<close> does on the parsers that carry policy
  \<open>OMIT\<close>, the lightweight flag and no sandbox flag (for cleaning) or no sandbox flag
  (for extraction), and fails on every other parser.\<close>

definition narrow_engine :: engine where
  "narrow_engine =
     \<lparr>get_parser = get_parser pdf_engine,
      parser_get_meta = (\<lambda>q f.
        if \<not> p_sandbox q then parser_get_meta pdf_engine q f
        else (Inl (OtherException ''unexpected parser''), f)),
      parser_remove_all = (\<lambda>q f.
        if p_unknown_member_policy q = OMIT \<and> p_lightweight_cleaning q \<and> \<not> p_sandbox q
        then parser_remove_all pdf_engine q f
        else (Inl (OtherException ''unexpected parser''), f))\<rparr>"

text \<open>The artifact of an upload named \<^verbatim>\<open>report.pdf\<close>, and the disk that holds it with
  given bytes and permission bits: as written under umask \<open>0o022\<close>, once the engine's
  output has replaced it, written with a body that is no PDF, and as written under
  umask \<open>0o777\<close>.\<close>

definition artifact_path :: path where
  "artifact_path = ''/srv/app/3f2b8c1e-7a4d-4e9b-9c2f-5d6a7b8c9d0ereport.pdf''"

definition disk_with :: "byte list \<Rightarrow> int \<Rightarrow> filesystem" where
  "disk_with bs m = app_disk(artifact_path \<mapsto> RegularFile bs m)"

definition stored_disk :: filesystem where
  "stored_disk = disk_with pdf_body 420"

definition cleaned_disk :: filesystem where
  "cleaned_disk = disk_with pdf_magic 420"

definition garbage_disk :: filesystem where
  "garbage_disk = disk_with text_body 420"

definition sealed_disk :: filesystem where
  "sealed_disk = disk_with pdf_body 0"

text \<open>The parser of a clean request with \<open>lightweight\<close> set, policy \<open>OMIT\<close> and
  \<open>sandbox\<close> unset, and the engine calls of that request.\<close>

definition omit_parser :: parser where
  "omit_parser =
     pdf_parser artifact_path\<lparr>p_unknown_member_policy := OMIT,
       p_lightweight_cleaning := True, p_sandbox := False\<rparr>"

definition clean_calls :: "engine_call list" where
  "clean_calls = [GetParser PoolProcess artifact_path, RemoveAll PoolProcess omit_parser]"

text \<open>An upload of the same PDF under a name whose first character, U+65E5, lies
  outside Latin-1: the name in UTF-8, its artifact, and the engine calls of the
  clean request.\<close>

definition sun_name :: string where
  "sun_name = [CHR 0xE6, CHR 0x97, CHR 0xA5] @ ''.pdf''"

definition sun_path :: path where
  "sun_path = ''/srv/app/'' @ request_uuid @ sun_name"

definition sun_disk :: "byte list \<Rightarrow> filesystem" where
  "sun_disk bs = app_disk(sun_path \<mapsto> RegularFile bs 420)"

definition sun_parser :: parser where
  "sun_parser =
     pdf_parser sun_path\<lparr>p_unknown_member_policy := OMIT,
       p_lightweight_cleaning := True, p_sandbox := False\<rparr>"

definition sun_calls :: "engine_call list" where
  "sun_calls = [GetParser PoolProcess sun_path, RemoveAll PoolProcess sun_parser]"

definition sun_error :: string where
  "sun_error =
     squote @ ''latin-1'' @ squote @ '' codec can't encode character '' @ squote @ bslash
       @ ''u65e5'' @ squote @ '' in position 22: ordinal not in range(256)''"

section \<open>Facts about paths\<close>

lemma split_sep_nonempty: "split_sep c xs \<noteq> []"
  by (induction xs) (auto split: list.splits)

lemma split_sep_absent: "c \<notin> set n \<Longrightarrow> split_sep c n = [n]"
  by (induction n) (auto split: list.splits)

lemma split_sep_append: "split_sep c (a @ c # b) = split_sep c a @ split_sep c b"
proof (induction a)
  case Nil
  show ?case by simp
next
  case (Cons x a)
  obtain v vs where s: "split_sep c a = v # vs"
    using split_sep_nonempty [of c a] by (cases "split_sep c a") auto
  show ?case using Cons s by (auto split: list.splits)
qed

lemma join_sep_snoc: "ws \<noteq> [] \<Longrightarrow> join_sep c (ws @ [n]) = join_sep c ws @ c # n"
  by (induction c ws rule: join_sep.induct) auto

lemma norm_step_plain: "plain_name n \<Longrightarrow> norm_step k cs n = cs @ [n]"
  by (auto simp: norm_step_def plain_name_def)

lemma plain_not_abs: "plain_name n \<Longrightarrow> \<not> isabs n"
  by (cases n) (auto simp: plain_name_def isabs_def)

lemma initial_slashes_join:
  assumes "isabs c" "last c \<noteq> CHR ''/''"
  shows "initial_slashes_of (c @ CHR ''/'' # n) = initial_slashes_of c"
proof -
  from assms obtain x r where c: "c = CHR ''/'' # x # r"
    by (cases c; cases "tl c") (auto simp: isabs_def)
  show ?thesis
  proof (cases r)
    case Nil
    with c assms show ?thesis
      by (simp add: initial_slashes_of_def numeral_2_eq_2 numeral_3_eq_3)
  next
    case (Cons y r')
    with c show ?thesis
      by (simp add: initial_slashes_of_def numeral_2_eq_2 numeral_3_eq_3)
  qed
qed

text \<open>Appending a plain name to a normal absolute directory gives a normal path.\<close>

lemma normpath_join_plain:
  assumes ab: "isabs c" and norm: "normpath c = c" and nl: "last c \<noteq> CHR ''/''"
    and pl: "plain_name n"
  shows "normpath (c @ CHR ''/'' # n) = c @ CHR ''/'' # n"
proof -
  let ?k = "initial_slashes_of c"
  let ?cs = "foldl (norm_step ?k) [] (split_sep CHR ''/'' c)"
  from ab have ne: "c \<noteq> []" and hd: "take 1 c = ''/''" by (auto simp: isabs_def)
  have dot: "c \<noteq> ''.''" using hd by auto
  have joined: "replicate ?k CHR ''/'' @ join_sep CHR ''/'' ?cs = c"
    using norm ne dot by (simp add: normpath_def Let_def split: if_splits)
  have kpos: "?k \<noteq> 0" using hd by (simp add: initial_slashes_of_def)
  have cs_ne: "?cs \<noteq> []"
  proof
    assume "?cs = []"
    with joined have "c = replicate ?k CHR ''/''" by simp
    then have "last c = CHR ''/''" using kpos by (metis last_replicate)
    with nl show False by simp
  qed
  have noslash: "CHR ''/'' \<notin> set n" using pl by (simp add: plain_name_def)
  have comps: "foldl (norm_step ?k) [] (split_sep CHR ''/'' (c @ CHR ''/'' # n)) = ?cs @ [n]"
    by (simp add: split_sep_append split_sep_absent [OF noslash] norm_step_plain [OF pl])
  show ?thesis
    using joined
    by (simp add: normpath_def [of "c @ CHR ''/'' # n"] initial_slashes_join [OF ab nl] comps
        join_sep_snoc [OF cs_ne] Let_def)
qed

lemma normpath_root_plain:
  assumes pl: "plain_name n"
  shows "normpath (CHR ''/'' # n) = CHR ''/'' # n"
proof -
  from pl obtain x r where n: "n = x # r" and x: "x \<noteq> CHR ''/''"
    by (cases n) (auto simp: plain_name_def)
  have noslash: "CHR ''/'' \<notin> set n" using pl by (simp add: plain_name_def)
  have k: "initial_slashes_of (CHR ''/'' # n) = 1"
    using n x by (simp add: initial_slashes_of_def numeral_2_eq_2)
  show ?thesis
    using split_sep_absent [OF noslash] norm_step_plain [OF pl, of 1 "[]"]
    by (simp add: normpath_def k norm_step_def Let_def)
qed

lemma resolve_plain:
  assumes "proper_cwd env" "plain_name n"
  shows "resolve env n = (if cwd env = ''/'' then CHR ''/'' # n else cwd env @ CHR ''/'' # n)"
  using assms plain_not_abs [OF assms(2)]
  by (auto simp: resolve_def os_path_join_def proper_cwd_def isabs_def)

text \<open>For a plain name, \<^verbatim>\<open>os.path.abspath\<close> is the path the kernel resolves.\<close>

lemma abspath_plain:
  assumes pc: "proper_cwd env" and pl: "plain_name n"
  shows "os_path_abspath env n = resolve env n"
proof (cases "cwd env = ''/''")
  case True
  then show ?thesis
    using normpath_root_plain [OF pl] plain_not_abs [OF pl]
    by (simp add: os_path_abspath_def resolve_def os_path_join_def)
next
  case False
  with pc have ab: "isabs (cwd env)" and norm: "normpath (cwd env) = cwd env"
    and nl: "last (cwd env) \<noteq> CHR ''/''"
    by (auto simp: proper_cwd_def)
  have ne: "cwd env \<noteq> []" using ab by (auto simp: isabs_def)
  show ?thesis
    using normpath_join_plain [OF ab norm nl pl] plain_not_abs [OF pl] nl ne
    by (simp add: os_path_abspath_def resolve_def os_path_join_def)
qed

lemma isabs_resolve: "proper_cwd env \<Longrightarrow> isabs (resolve env n)"
  by (cases "cwd env") (auto simp: resolve_def os_path_join_def proper_cwd_def isabs_def)

lemma resolve_idem: "proper_cwd env \<Longrightarrow> resolve env (resolve env n) = resolve env n"
  using isabs_resolve [of env n] by (simp add: resolve_def [of env "resolve env n"])

lemma resolve_abspath_plain:
  "proper_cwd env \<Longrightarrow> plain_name n \<Longrightarrow> resolve env (os_path_abspath env n) = resolve env n"
  by (simp add: abspath_plain resolve_idem)

text \<open>A plain name resolves to an entry of the working directory itself.\<close>

lemma dirname_resolve_plain:
  assumes pc: "proper_cwd env" and pl: "plain_name n"
  shows "os_path_dirname (resolve env n) = cwd env"
proof -
  have ns: "CHR ''/'' \<notin> set n" using pl by (simp add: plain_name_def)
  then have dw: "dropWhile (\<lambda>c. c \<noteq> CHR ''/'') (rev n @ CHR ''/'' # xs) = CHR ''/'' # xs" for xs
    by (subst dropWhile_append2) auto
  show ?thesis
  proof (cases "cwd env = ''/''")
    case True
    then show ?thesis
      using dw [of "[]"] by (simp add: resolve_plain [OF pc pl] os_path_dirname_def)
  next
    case False
    with pc have ab: "isabs (cwd env)" and nl: "last (cwd env) \<noteq> CHR ''/''"
      by (auto simp: proper_cwd_def)
    from ab have ne: "cwd env \<noteq> []" by (auto simp: isabs_def)
    have hd: "hd (rev (cwd env)) \<noteq> CHR ''/''" using nl ne by (simp add: hd_rev)
    have rne: "rev (cwd env) \<noteq> []" using ne by simp
    have strip: "dropWhile (\<lambda>c. c = CHR ''/'') (rev (cwd env)) = rev (cwd env)"
      using hd rne by (cases "rev (cwd env)") auto
    have notall: "cwd env @ ''/'' \<noteq> replicate (Suc (length (cwd env))) CHR ''/''"
    proof
      assume "cwd env @ ''/'' = replicate (Suc (length (cwd env))) CHR ''/''"
      then have "cwd env @ ''/'' = replicate (length (cwd env)) CHR ''/'' @ ''/''"
        by (simp add: replicate_append_same)
      then have "cwd env = replicate (length (cwd env)) CHR ''/''" by simp
      then have "last (cwd env) = CHR ''/''" using ne by (metis last_replicate length_0_conv)
      with nl show False by simp
    qed
    show ?thesis
      using dw [of "rev (cwd env)"] strip notall False
      by (simp add: resolve_plain [OF pc pl] os_path_dirname_def Let_def)
  qed
qed

section \<open>Facts about the filesystem operations\<close>

lemma uuid_plain:
  assumes "uuid_text u" "CHR ''/'' \<notin> set fn"
  shows "plain_name (artifact_name u fn)"
proof -
  from assms(1) have len: "length u = 36" and chars: "set u \<subseteq> set ''0123456789abcdef-''"
    by (simp_all add: uuid_text_def)
  from chars have "CHR ''/'' \<notin> set u" by auto
  moreover have short: "u @ fn \<noteq> s" if "length s < 36" for s :: string
    using that len by auto
  have "u @ fn \<noteq> []" "u @ fn \<noteq> ''.''" "u @ fn \<noteq> ''..''"
    by (rule short, simp)+
  ultimately show ?thesis using assms(2) by (simp add: plain_name_def artifact_name_def)
qed

lemma write_file_result:
  "write_file env f p bs = Inr f' \<Longrightarrow> \<exists>m. f' = f(resolve env p \<mapsto> RegularFile bs m)"
  by (auto simp: write_file_def split: option.splits node.splits if_splits)

lemma os_remove_file:
  "f (resolve env p) = Some (RegularFile bs m) \<Longrightarrow> os_remove env f p = Inr (f(resolve env p := None))"
  by (simp add: os_remove_def)

lemma os_remove_leaves_no_file:
  "\<not> os_path_isfile env (case os_remove env f p of Inl _ \<Rightarrow> f | Inr g \<Rightarrow> g) p"
  by (auto simp: os_remove_def os_path_isfile_def split: option.splits node.splits)

lemma calls_record_call: "calls (record_call c w) = calls w @ [c]"
  by (simp add: record_call_def)

lemma fs_record_call: "fs (record_call c w) = fs w"
  by (simp add: record_call_def)

lemma clean_meta_refused:
  "\<not> check_file env (fs w) p (if ip then R_OK OR W_OK else R_OK)
   \<Longrightarrow> clean_meta env e st w p lw ip sb pol = (Inr False, w)"
  by (simp add: clean_meta_def Let_def)

lemma get_meta_refused:
  "\<not> check_file env (fs w) p R_OK
   \<Longrightarrow> get_meta env e st w p sb = (Inl (HTTPException 500 ''File error''), w)"
  by (simp add: get_meta_def)

lemma clean_meta_calls_checked:
  assumes "check_file env (fs w) p (if ip then R_OK OR W_OK else R_OK)"
  shows "\<exists>cs. calls (snd (clean_meta env e st w p lw ip sb pol)) = calls w @ GetParser st p # cs"
  using assms
  by (auto simp: clean_meta_def Let_def calls_record_call fs_record_call
      split: sum.splits exn.splits option.splits prod.splits if_splits)

lemma get_meta_calls_checked:
  assumes "check_file env (fs w) p R_OK"
  shows "\<exists>cs. calls (snd (get_meta env e st w p sb)) = calls w @ GetParser st p # cs"
  using assms
  by (auto simp: get_meta_def Let_def calls_record_call fs_record_call
      split: sum.splits exn.splits option.splits prod.splits if_splits)

lemma cache_delete_file_Some:
  "cache_delete_file env w filename = (Inr r, w') \<Longrightarrow>
     \<exists>b. r = Some b \<and> \<not> os_path_isfile env (fs w') (os_path_abspath env filename)"
  by (auto simp: cache_delete_file_def Let_def os_remove_def os_path_isfile_def
      split: sum.splits option.splits node.splits)

lemma clean_finally_absent:
  "\<not> os_path_isfile env (fs w) (os_path_abspath env filename)
   \<Longrightarrow> clean_finally env w filename out = (out, w)"
  by (simp add: clean_finally_def)

lemma clean_unfold:
  "write_file env (fs w) (artifact_name u fn) body = Inr f \<Longrightarrow>
   clean env e w u fn body lw pol sb
     = clean_try env e (w\<lparr>fs := f\<rparr>) (artifact_name u fn)
         (fst (os_path_splitext fn)) (snd (os_path_splitext fn)) lw sb pol"
  by (simp add: clean_def Let_def split: prod.splits)

lemma show_unfold:
  "write_file env (fs w) (artifact_name u fn) body = Inr f \<Longrightarrow>
   show env e w u fn body sb = show_try env e (w\<lparr>fs := f\<rparr>) (artifact_name u fn) sb"
  by (simp add: show_def Let_def)

lemma cache_delete_file_eval:
  assumes "fs w (resolve env (os_path_abspath env filename)) = Some (RegularFile bs m)"
    and "R_OK AND owner_bits m = R_OK"
  shows "cache_delete_file env w filename
           = (Inr (Some \<lparr>buffer = bs, position = 0\<rparr>),
              w\<lparr>fs := (fs w)(resolve env (os_path_abspath env filename) := None)\<rparr>)"
  using assms
  by (simp add: cache_delete_file_def read_file_def os_remove_def Let_def io_BytesIO_def
      bytesio_write_def bytesio_seek_def)

text \<open>The \<^verbatim>\<open>finally\<close> clause of \<^verbatim>\<open>clean\<close> removes only what \<^verbatim>\<open>os.path.isfile\<close> has just seen,
  so it never replaces the outcome, and it leaves no regular file behind.\<close>

lemma clean_finally_outcome: "fst (clean_finally env w filename out) = out"
  by (auto simp: clean_finally_def os_remove_def os_path_isfile_def
      split: option.splits node.splits)

lemma clean_finally_leaves_no_file:
  "\<not> os_path_isfile env (fs (snd (clean_finally env w filename out)))
       (os_path_abspath env filename)"
  by (auto simp: clean_finally_def os_remove_def os_path_isfile_def
      split: option.splits node.splits)

lemma written_is_file:
  "write_file env f p bs = Inr f' \<Longrightarrow> \<exists>m. f' (resolve env p) = Some (RegularFile bs m)"
  by (auto dest: write_file_result)

lemma written_removable:
  "write_file env f p bs = Inr f' \<Longrightarrow> os_remove env f' p = Inr (f'(resolve env p := None))"
  by (auto dest!: written_is_file intro: os_remove_file)

lemma show_try_leaves_no_file:
  "\<not> os_path_isfile env (fs (snd (show_try env e w filename sb))) filename"
proof -
  obtain r w1 where gm: "get_meta env e EventLoopThread w (os_path_abspath env filename) sb = (r, w1)"
    by (cases "get_meta env e EventLoopThread w (os_path_abspath env filename) sb")
  show ?thesis
    using os_remove_leaves_no_file [of env "fs w1" filename]
    by (simp add: show_try_def await_here_def gm split: sum.splits)
qed

lemma isfile_abspath_plain:
  "proper_cwd env \<Longrightarrow> plain_name n \<Longrightarrow>
     os_path_isfile env f (os_path_abspath env n) = os_path_isfile env f n"
  by (simp add: os_path_isfile_def resolve_abspath_plain)

section \<open>Facts about the responses\<close>

lemma show_try_refused:
  assumes rm: "os_remove env (fs w) filename = Inr g"
    and chk: "\<not> check_file env (fs w) (os_path_abspath env filename) R_OK"
  shows "fst (show_try env e w filename sb) = Inl (HTTPException 500 ''File error'')"
  by (simp add: show_try_def await_here_def get_meta_refused [OF chk] rm)

lemma show_try_unsupported:
  assumes rm: "os_remove env (fs w) filename = Inr g"
    and chk: "check_file env (fs w) (os_path_abspath env filename) R_OK"
    and gp: "get_parser e (fs w) (os_path_abspath env filename) = Inr (None, mtype)"
  shows "fst (show_try env e w filename sb)
           = Inl (HTTPException 400 (''format ('' @ format_opt mtype @ '') is not supported''))"
  by (simp add: show_try_def await_here_def get_meta_def chk gp rm fs_record_call Let_def)

lemma clean_try_result:
  "fst (clean_try env e w filename pre ext lw sb pol)
     = (case clean_except (fst (clean_body env e w filename pre ext lw sb pol)) of
          Returned resp \<Rightarrow> Inr resp
        | Raised ex \<Rightarrow> Inl ex
        | FellThrough \<Rightarrow> Inl (HTTPException 400 ''Failed to remove metadata''))"
proof -
  obtain out w1 where b: "clean_body env e w filename pre ext lw sb pol = (out, w1)"
    by (cases "clean_body env e w filename pre ext lw sb pol")
  obtain out1 w2 where f: "clean_finally env w1 filename (clean_except out) = (out1, w2)"
    by (cases "clean_finally env w1 filename (clean_except out)")
  have "out1 = clean_except out"
    using clean_finally_outcome [of env w1 filename "clean_except out"] f by simp
  then show ?thesis by (simp add: clean_try_def b f split: outcome.splits)
qed

lemma clean_try_refused:
  assumes "\<not> check_file env (fs w) (os_path_abspath env filename) (R_OK OR W_OK)"
  shows "fst (clean_try env e w filename pre ext lw sb pol)
           = Inl (HTTPException 400 ''Failed to remove metadata'')"
  using clean_meta_refused [of env w "os_path_abspath env filename" True e PoolProcess lw sb pol]
    assms
  by (simp add: clean_try_result clean_body_def run_in_executor_def clean_except_def)

lemma clean_try_unsupported:
  assumes chk: "check_file env (fs w) (os_path_abspath env filename) (R_OK OR W_OK)"
    and gp: "get_parser e (fs w) (os_path_abspath env filename) = Inr (None, mtype)"
  shows "fst (clean_try env e w filename pre ext lw sb pol)
           = Inl (HTTPException 400 (''format ('' @ format_opt mtype @ '') is not supported''))"
  by (simp add: clean_try_result clean_body_def run_in_executor_def clean_except_def
      clean_meta_def chk gp Let_def)

section \<open>Facts about the recorded engine calls\<close>

lemma cache_delete_file_calls: "calls (snd (cache_delete_file env w filename)) = calls w"
  by (auto simp: cache_delete_file_def Let_def split: sum.splits)

lemma clean_finally_calls: "calls (snd (clean_finally env w filename out)) = calls w"
  by (auto simp: clean_finally_def split: sum.splits)

lemma clean_body_calls:
  "calls (snd (clean_body env e w filename pre ext lw sb pol))
     = calls (snd (clean_meta env e PoolProcess w (os_path_abspath env filename) lw True sb pol))"
proof -
  obtain r w1 where cm: "clean_meta env e PoolProcess w (os_path_abspath env filename) lw True sb pol
                           = (r, w1)"
    by (cases "clean_meta env e PoolProcess w (os_path_abspath env filename) lw True sb pol")
  obtain c w2 where cd: "cache_delete_file env w1 filename = (c, w2)"
    by (cases "cache_delete_file env w1 filename")
  have w2: "calls w2 = calls w1" using cache_delete_file_calls [of env w1 filename] cd by simp
  show ?thesis
    using w2
    by (simp add: clean_body_def run_in_executor_def cm cd
        split: sum.splits bool.splits option.splits)
qed

lemma clean_try_world:
  "snd (clean_try env e w filename pre ext lw sb pol)
     = snd (clean_finally env (snd (clean_body env e w filename pre ext lw sb pol)) filename
              (clean_except (fst (clean_body env e w filename pre ext lw sb pol))))"
  by (simp add: clean_try_def Let_def split: prod.splits outcome.splits)

lemma clean_try_calls:
  "calls (snd (clean_try env e w filename pre ext lw sb pol))
     = calls (snd (clean_meta env e PoolProcess w (os_path_abspath env filename) lw True sb pol))"
  by (simp add: clean_try_world clean_finally_calls clean_body_calls)

section \<open>Facts about what the engine is given\<close>

text \<open>When \<^verbatim>\<open>get_meta\<close> gets as far as the engine, its result is what the engine
  returns for the resolved parser with the sandbox flag set.\<close>

lemma get_meta_reached:
  assumes "check_file env (fs w) p R_OK"
    and "get_parser e (fs w) p = Inr (Some p0, mt)"
    and "parser_get_meta e (p0\<lparr>p_sandbox := sb\<rparr>) (fs w) = (r, f')"
  shows "get_meta env e st w p sb
           = (r, \<lparr>fs = f',
                  calls = calls w @ [GetParser st p, GetMeta st (p0\<lparr>p_sandbox := sb\<rparr>)]\<rparr>)"
  using assms by (simp add: get_meta_def Let_def record_call_def)

lemma show_reached:
  assumes wr: "write_file env (fs w) (artifact_name u fn) body = Inr f"
    and chk: "check_file env f (os_path_abspath env (artifact_name u fn)) R_OK"
    and gp: "get_parser e f (os_path_abspath env (artifact_name u fn)) = Inr (Some p1, mt1)"
    and gm: "parser_get_meta e (p1\<lparr>p_sandbox := sb\<rparr>) f = (Inr md, f')"
    and rm: "os_remove env f' (artifact_name u fn) = Inr g"
  shows "show env e w u fn body sb
           = (Inr (JSONResponse md ''text/plain''),
              \<lparr>fs = g,
               calls = calls w
                 @ [GetParser EventLoopThread (os_path_abspath env (artifact_name u fn)),
                    GetMeta EventLoopThread (p1\<lparr>p_sandbox := sb\<rparr>)]\<rparr>)"
proof -
  have "get_meta env e EventLoopThread (w\<lparr>fs := f\<rparr>)
          (os_path_abspath env (artifact_name u fn)) sb
        = (Inr md, \<lparr>fs = f',
                     calls = calls (w\<lparr>fs := f\<rparr>)
                       @ [GetParser EventLoopThread (os_path_abspath env (artifact_name u fn)),
                          GetMeta EventLoopThread (p1\<lparr>p_sandbox := sb\<rparr>)]\<rparr>)"
    by (rule get_meta_reached) (simp_all add: chk gp gm)
  then show ?thesis
    by (simp add: show_unfold [OF wr] show_try_def await_here_def rm)
qed

text \<open>When \<^verbatim>\<open>clean_meta\<close> gets as far as the engine and the engine declines, the result
  is that of the engine for the resolved parser with the three fields set.\<close>

lemma clean_meta_declined:
  assumes "check_file env (fs w) p (if ip then R_OK OR W_OK else R_OK)"
    and "get_parser e (fs w) p = Inr (Some p0, mt)"
    and "parser_remove_all e
           (p0\<lparr>p_unknown_member_policy := pol, p_lightweight_cleaning := lw, p_sandbox := sb\<rparr>)
           (fs w) = (Inr False, f1)"
  shows "clean_meta env e st w p lw ip sb pol
           = (Inr False,
              \<lparr>fs = f1,
               calls = calls w
                 @ [GetParser st p,
                    RemoveAll st (p0\<lparr>p_unknown_member_policy := pol,
                                     p_lightweight_cleaning := lw, p_sandbox := sb\<rparr>)]\<rparr>)"
  using assms by (simp add: clean_meta_def Let_def record_call_def)

text \<open>Two engines that resolve parsers alike and agree on the parsers that carry the
  configuration of the call are not told apart.\<close>

lemma clean_meta_ext:
  assumes gp: "get_parser e' = get_parser e"
    and ra: "\<And>q f. p_unknown_member_policy q = pol \<Longrightarrow> p_lightweight_cleaning q = lw
                \<Longrightarrow> p_sandbox q = sb \<Longrightarrow> parser_remove_all e' q f = parser_remove_all e q f"
  shows "clean_meta env e' st w p lw ip sb pol = clean_meta env e st w p lw ip sb pol"
proof (cases "get_parser e (fs w) p")
  case (Inl ex)
  then show ?thesis by (simp add: clean_meta_def gp Let_def)
next
  case (Inr res)
  obtain po mt where res: "res = (po, mt)" by (cases res)
  show ?thesis
  proof (cases po)
    case None
    with Inr res show ?thesis by (simp add: clean_meta_def gp Let_def)
  next
    case (Some p0)
    have "parser_remove_all e'
            (p0\<lparr>p_unknown_member_policy := pol, p_lightweight_cleaning := lw, p_sandbox := sb\<rparr>)
            (fs w)
          = parser_remove_all e
            (p0\<lparr>p_unknown_member_policy := pol, p_lightweight_cleaning := lw, p_sandbox := sb\<rparr>)
            (fs w)"
      by (rule ra) simp_all
    with Inr res Some show ?thesis
      by (simp add: clean_meta_def gp Let_def record_call_def)
  qed
qed

lemma get_meta_ext:
  assumes gp: "get_parser e' = get_parser e"
    and gm: "\<And>q f. p_sandbox q = sb \<Longrightarrow> parser_get_meta e' q f = parser_get_meta e q f"
  shows "get_meta env e' st w p sb = get_meta env e st w p sb"
proof (cases "get_parser e (fs w) p")
  case (Inl ex)
  then show ?thesis by (simp add: get_meta_def gp Let_def)
next
  case (Inr res)
  obtain po mt where res: "res = (po, mt)" by (cases res)
  show ?thesis
  proof (cases po)
    case None
    with Inr res show ?thesis by (simp add: get_meta_def gp Let_def)
  next
    case (Some p0)
    have "parser_get_meta e' (p0\<lparr>p_sandbox := sb\<rparr>) (fs w)
          = parser_get_meta e (p0\<lparr>p_sandbox := sb\<rparr>) (fs w)"
      by (rule gm) simp
    with Inr res Some show ?thesis
      by (simp add: get_meta_def gp Let_def record_call_def)
  qed
qed

lemma show_ext:
  assumes gp: "get_parser e' = get_parser e"
    and gm: "\<And>q f. p_sandbox q = sb \<Longrightarrow> parser_get_meta e' q f = parser_get_meta e q f"
  shows "show env e' w u fn body sb = show env e w u fn body sb"
proof -
  have "show_try env e' w' filename sb = show_try env e w' filename sb" for w' filename
    by (simp add: show_try_def await_here_def get_meta_ext [OF gp gm])
  then show ?thesis
    by (cases "write_file env (fs w) (artifact_name u fn) body") (simp_all add: show_def)
qed

section \<open>Facts about the response of a successful cleaning\<close>

text \<open>After a successful cleaning and read-back, what \<^verbatim>\<open>clean\<close> returns depends on the
  encoding of the \<^verbatim>\<open>Content-Disposition\<close> value alone.\<close>

lemma clean_streams:
  assumes wr: "write_file env (fs w) (artifact_name u fn) body = Inr f"
    and cm: "clean_meta env e PoolProcess (w\<lparr>fs := f\<rparr>)
               (os_path_abspath env (artifact_name u fn)) lw True sb pol = (Inr True, w1)"
    and cd: "cache_delete_file env w1 (artifact_name u fn) = (Inr r1, w2)"
    and enc: "encode_latin1 (''attachment; filename='' @ dquote @ fst (os_path_splitext fn)
                @ ''_metaclean'' @ snd (os_path_splitext fn) @ dquote) = Inr bs"
  shows "\<exists>d. r1 = Some d
           \<and> clean env e w u fn body lw pol sb
               = (Inr (StreamingResponse d ''application/octet-stream''
                        (''attachment; filename='' @ dquote @ fst (os_path_splitext fn)
                           @ ''_metaclean'' @ snd (os_path_splitext fn) @ dquote)), w2)"
proof -
  from cache_delete_file_Some [OF cd] obtain d where d: "r1 = Some d"
    and gone: "\<not> os_path_isfile env (fs w2) (os_path_abspath env (artifact_name u fn))"
    by blast
  show ?thesis
    using enc
    by (simp add: clean_unfold [OF wr] clean_try_def clean_body_def clean_except_def
        run_in_executor_def cm cd d new_StreamingResponse_def
        clean_finally_absent [OF gone])
qed

lemma clean_header_rejected:
  assumes wr: "write_file env (fs w) (artifact_name u fn) body = Inr f"
    and cm: "clean_meta env e PoolProcess (w\<lparr>fs := f\<rparr>)
               (os_path_abspath env (artifact_name u fn)) lw True sb pol = (Inr True, w1)"
    and cd: "cache_delete_file env w1 (artifact_name u fn) = (Inr r1, w2)"
    and enc: "encode_latin1 (''attachment; filename='' @ dquote @ fst (os_path_splitext fn)
                @ ''_metaclean'' @ snd (os_path_splitext fn) @ dquote) = Inl (ValueError msg)"
  shows "clean env e w u fn body lw pol sb = (Inl (HTTPException 400 msg), w2)"
proof -
  from cache_delete_file_Some [OF cd] obtain d where d: "r1 = Some d"
    and gone: "\<not> os_path_isfile env (fs w2) (os_path_abspath env (artifact_name u fn))"
    by blast
  show ?thesis
    using enc
    by (simp add: clean_unfold [OF wr] clean_try_def clean_body_def clean_except_def
        run_in_executor_def cm cd d new_StreamingResponse_def
        clean_finally_absent [OF gone])
qed

section \<open>Facts about the concrete requests\<close>

lemma process_fields:
  "cwd app_process = ''/srv/app''" "umask app_process = 18"
  "cwd sealed_process = ''/srv/app''" "umask sealed_process = 511"
  by (simp_all add: app_process_def sealed_process_def)

lemma idle_world_fields:
  "fs idle_world = app_disk" "calls idle_world = []"
  "idle_world\<lparr>fs := f\<rparr> = \<lparr>fs = f, calls = []\<rparr>"
  by (simp_all add: idle_world_def)

lemma proper_srv_app: "cwd env = ''/srv/app'' \<Longrightarrow> proper_cwd env"
  by (simp add: proper_cwd_def isabs_def normpath_def initial_slashes_of_def norm_step_def)

lemma uuid_request: "uuid_text request_uuid"
  by (simp add: uuid_text_def request_uuid_def)

lemma report_resolve:
  "cwd env = ''/srv/app'' \<Longrightarrow> resolve env (artifact_name request_uuid ''report.pdf'') = artifact_path"
  by (simp add: resolve_def os_path_join_def isabs_def artifact_name_def request_uuid_def
      artifact_path_def)

lemma report_abspath:
  assumes "cwd env = ''/srv/app''"
  shows "os_path_abspath env (artifact_name request_uuid ''report.pdf'') = artifact_path"
proof -
  have "plain_name (artifact_name request_uuid ''report.pdf'')"
    by (rule uuid_plain [OF uuid_request]) simp
  from abspath_plain [OF proper_srv_app [OF assms] this] show ?thesis
    by (simp add: report_resolve [OF assms])
qed

lemma resolve_artifact_path: "resolve env artifact_path = artifact_path"
  by (simp add: resolve_def isabs_def artifact_path_def)

lemma cleaned_resolve: "resolve env (artifact_path @ ''.cleaned'') = artifact_path @ ''.cleaned''"
  by (simp add: resolve_def isabs_def artifact_path_def)

lemma dirname_artifact_path: "os_path_dirname artifact_path = ''/srv/app''"
  by (simp add: os_path_dirname_def artifact_path_def)

lemma path_distinct:
  "artifact_path @ ''.cleaned'' \<noteq> artifact_path"
  "artifact_path \<noteq> ''/srv/app''"
  "artifact_path @ ''.cleaned'' \<noteq> ''/srv/app''"
  by (simp_all add: artifact_path_def)

lemma app_disk_lookup:
  "app_disk artifact_path = None" "app_disk ''/srv/app'' = Some (Directory 493)"
  "app_disk (artifact_path @ ''.cleaned'') = None"
  by (simp_all add: app_disk_def path_distinct)

lemma disk_with_lookup:
  "disk_with bs m artifact_path = Some (RegularFile bs m)"
  "disk_with bs m (artifact_path @ ''.cleaned'') = None"
  by (simp_all add: disk_with_def path_distinct app_disk_lookup)

lemma disk_with_removed: "(disk_with bs m)(artifact_path := None) = app_disk"
  by (rule ext) (simp add: disk_with_def app_disk_lookup)

lemma report_written:
  assumes "cwd env = ''/srv/app''"
  shows "write_file env app_disk (artifact_name request_uuid ''report.pdf'') bs
           = Inr (disk_with bs (438 AND NOT (umask env)))"
  by (simp add: write_file_def report_resolve [OF assms] dirname_artifact_path app_disk_lookup
      disk_with_def)

lemma app_written:
  "write_file app_process (fs idle_world) (artifact_name request_uuid ''report.pdf'') bs
     = Inr (disk_with bs 420)"
  by (simp add: report_written process_fields idle_world_fields)

lemma sealed_written:
  "write_file sealed_process (fs idle_world) (artifact_name request_uuid ''report.pdf'') bs
     = Inr (disk_with bs 0)"
  by (simp add: report_written process_fields idle_world_fields)

lemma disk_check:
  "check_file env (disk_with bs m) artifact_path mode = (mode AND owner_bits m = mode)"
  by (simp add: check_file_def os_path_exists_def os_path_isfile_def os_access_def
      resolve_artifact_path disk_with_lookup)

lemma owner_bits_values: "owner_bits 420 = 6" "owner_bits 0 = 0"
  by (simp_all add: owner_bits_def)

lemma pdf_get_parser:
  "get_parser pdf_engine (disk_with pdf_body m) artifact_path
     = Inr (Some (pdf_parser artifact_path), Some ''application/pdf'')"
  by (simp add: pdf_engine_def disk_with_lookup pdf_body_def pdf_magic_def)

lemma garbage_get_parser:
  "get_parser pdf_engine (disk_with text_body m) artifact_path = Inr (None, Some ''text/plain'')"
  by (simp add: pdf_engine_def disk_with_lookup text_body_def pdf_magic_def)

lemma omit_parser_output: "p_output_filename omit_parser = artifact_path @ ''.cleaned''"
  by (simp add: omit_parser_def pdf_parser_def)

lemma omit_remove_all:
  "parser_remove_all pdf_engine omit_parser stored_disk
     = (Inr True, stored_disk(artifact_path @ ''.cleaned'' \<mapsto> RegularFile pdf_magic 384))"
  by (simp add: pdf_engine_def omit_parser_def pdf_parser_def stored_disk_def disk_with_lookup
      pdf_body_def pdf_magic_def)

lemma report_clean_meta:
  "clean_meta env pdf_engine PoolProcess \<lparr>fs = stored_disk, calls = []\<rparr>
      artifact_path True True False OMIT
     = (Inr True, \<lparr>fs = cleaned_disk, calls = clean_calls\<rparr>)"
proof -
  let ?out = "artifact_path @ ''.cleaned''"
  let ?f1 = "stored_disk(?out \<mapsto> RegularFile pdf_magic 384)"
  let ?f2 = "stored_disk(?out \<mapsto> RegularFile pdf_magic 420)"
  have gp: "get_parser pdf_engine stored_disk artifact_path
              = Inr (Some (pdf_parser artifact_path), Some ''application/pdf'')"
    by (simp add: stored_disk_def pdf_get_parser)
  have cfg: "pdf_parser artifact_path\<lparr>p_unknown_member_policy := OMIT,
                 p_lightweight_cleaning := True, p_sandbox := False\<rparr> = omit_parser"
    by (simp add: omit_parser_def)
  have cm: "shutil_copymode env ?f1 artifact_path ?out = Inr ?f2"
    by (simp add: shutil_copymode_def cleaned_resolve resolve_artifact_path stored_disk_def
        disk_with_lookup path_distinct)
  have "(?f2(?out := None))(artifact_path \<mapsto> RegularFile pdf_magic 420) = cleaned_disk"
    by (rule ext) (simp add: stored_disk_def cleaned_disk_def disk_with_def path_distinct
        app_disk_lookup)
  then have rn: "os_rename env ?f2 ?out artifact_path = Inr cleaned_disk"
    by (simp add: os_rename_def cleaned_resolve resolve_artifact_path stored_disk_def
        disk_with_lookup path_distinct)
  have chk: "check_file env stored_disk artifact_path (R_OK OR W_OK)"
    by (simp add: stored_disk_def disk_check owner_bits_values R_OK_def W_OK_def)
  show ?thesis
    by (simp add: clean_meta_def chk gp cfg omit_remove_all omit_parser_output cm rn
        record_call_def Let_def clean_calls_def)
qed

lemma report_splitext: "os_path_splitext ''report.pdf'' = (''report'', ''.pdf'')"
  by code_simp

lemma report_captured:
  assumes "cwd env = ''/srv/app''"
  shows "cache_delete_file env \<lparr>fs = cleaned_disk, calls = cs\<rparr>
           (artifact_name request_uuid ''report.pdf'')
         = (Inr (Some \<lparr>buffer = pdf_magic, position = 0\<rparr>), \<lparr>fs = app_disk, calls = cs\<rparr>)"
proof -
  have "fs \<lparr>fs = cleaned_disk, calls = cs\<rparr>
          (resolve env (os_path_abspath env (artifact_name request_uuid ''report.pdf'')))
        = Some (RegularFile pdf_magic 420)"
    by (simp add: report_abspath [OF assms] resolve_artifact_path cleaned_disk_def disk_with_lookup)
  moreover have "R_OK AND owner_bits 420 = R_OK" by (simp add: R_OK_def owner_bits_values)
  ultimately show ?thesis
    by (simp add: cache_delete_file_eval report_abspath [OF assms] resolve_artifact_path
        cleaned_disk_def disk_with_removed)
qed

lemma report_clean_calls:
  "calls (snd (clean app_process pdf_engine idle_world request_uuid ''report.pdf'' pdf_body
                 True OMIT False))
     = clean_calls"
  using report_clean_meta [of app_process]
  by (simp add: clean_unfold [OF app_written] clean_try_calls report_abspath process_fields
      idle_world_fields stored_disk_def)

text \<open>The engine under policy \<open>ABORT\<close>, and the narrow engine.\<close>

lemma abort_remove_all:
  "parser_remove_all pdf_engine
     (pdf_parser artifact_path\<lparr>p_unknown_member_policy := ABORT,
        p_lightweight_cleaning := True, p_sandbox := False\<rparr>) f
     = (Inr False, f)"
  by (simp add: pdf_engine_def)

lemma report_get_meta:
  "parser_get_meta pdf_engine (pdf_parser artifact_path\<lparr>p_sandbox := False\<rparr>) f
     = (Inr [(''creator'', ''writer''), (''sandbox'', ''off'')], f)"
  by (simp add: pdf_engine_def)

lemma narrow_get_parser: "get_parser narrow_engine = get_parser pdf_engine"
  by (simp add: narrow_engine_def)

lemma narrow_remove_all:
  "p_unknown_member_policy q = OMIT \<Longrightarrow> p_lightweight_cleaning q = True
     \<Longrightarrow> p_sandbox q = False
     \<Longrightarrow> parser_remove_all narrow_engine q f = parser_remove_all pdf_engine q f"
  by (simp add: narrow_engine_def)

lemma narrow_get_meta:
  "p_sandbox q = False \<Longrightarrow> parser_get_meta narrow_engine q f = parser_get_meta pdf_engine q f"
  by (simp add: narrow_engine_def)

lemma stored_removed:
  "os_remove app_process stored_disk (artifact_name request_uuid ''report.pdf'') = Inr app_disk"
  by (simp add: os_remove_def report_resolve process_fields stored_disk_def disk_with_lookup
      disk_with_removed)

text \<open>The upload whose name lies outside Latin-1.\<close>

lemma sun_resolve:
  "cwd env = ''/srv/app'' \<Longrightarrow> resolve env (artifact_name request_uuid sun_name) = sun_path"
  by (simp add: resolve_def os_path_join_def isabs_def artifact_name_def request_uuid_def
      sun_name_def sun_path_def)

lemma sun_abspath:
  assumes "cwd env = ''/srv/app''"
  shows "os_path_abspath env (artifact_name request_uuid sun_name) = sun_path"
proof -
  have "plain_name (artifact_name request_uuid sun_name)"
    by (rule uuid_plain [OF uuid_request]) (simp add: sun_name_def)
  from abspath_plain [OF proper_srv_app [OF assms] this] show ?thesis
    by (simp add: sun_resolve [OF assms])
qed

lemma resolve_sun_path:
  "resolve env sun_path = sun_path"
  "resolve env (sun_path @ ''.cleaned'') = sun_path @ ''.cleaned''"
  by (simp_all add: resolve_def isabs_def sun_path_def)

lemma dirname_sun_path: "os_path_dirname sun_path = ''/srv/app''"
  by (simp add: os_path_dirname_def sun_path_def request_uuid_def sun_name_def)

lemma sun_distinct:
  "sun_path @ ''.cleaned'' \<noteq> sun_path"
  "sun_path \<noteq> ''/srv/app''"
  "sun_path @ ''.cleaned'' \<noteq> ''/srv/app''"
  by (simp_all add: sun_path_def)

lemma sun_disk_lookup:
  "app_disk sun_path = None"
  "app_disk (sun_path @ ''.cleaned'') = None"
  "sun_disk bs sun_path = Some (RegularFile bs 420)"
  "sun_disk bs (sun_path @ ''.cleaned'') = None"
  by (simp_all add: sun_disk_def app_disk_def sun_distinct)

lemma sun_disk_removed: "(sun_disk bs)(sun_path := None) = app_disk"
  by (rule ext) (simp add: sun_disk_def sun_disk_lookup)

lemma sun_written:
  "write_file app_process (fs idle_world) (artifact_name request_uuid sun_name) bs
     = Inr (sun_disk bs)"
proof -
  have "(438::int) AND NOT (umask app_process) = 420" by (simp add: process_fields)
  then show ?thesis
    by (simp add: write_file_def sun_resolve process_fields idle_world_fields dirname_sun_path
        sun_disk_lookup app_disk_lookup sun_disk_def)
qed

lemma sun_clean_meta:
  "clean_meta env pdf_engine PoolProcess \<lparr>fs = sun_disk pdf_body, calls = []\<rparr>
      sun_path True True False OMIT
     = (Inr True, \<lparr>fs = sun_disk pdf_magic, calls = sun_calls\<rparr>)"
proof -
  let ?out = "sun_path @ ''.cleaned''"
  let ?f1 = "(sun_disk pdf_body)(?out \<mapsto> RegularFile pdf_magic 384)"
  let ?f2 = "(sun_disk pdf_body)(?out \<mapsto> RegularFile pdf_magic 420)"
  have gp: "get_parser pdf_engine (sun_disk pdf_body) sun_path
              = Inr (Some (pdf_parser sun_path), Some ''application/pdf'')"
    by (simp add: pdf_engine_def sun_disk_lookup pdf_body_def pdf_magic_def)
  have cfg: "pdf_parser sun_path\<lparr>p_unknown_member_policy := OMIT,
                 p_lightweight_cleaning := True, p_sandbox := False\<rparr> = sun_parser"
    by (simp add: sun_parser_def)
  have outname: "p_output_filename sun_parser = ?out"
    by (simp add: sun_parser_def pdf_parser_def)
  have ra: "parser_remove_all pdf_engine sun_parser (sun_disk pdf_body) = (Inr True, ?f1)"
    by (simp add: pdf_engine_def sun_parser_def pdf_parser_def sun_disk_lookup pdf_body_def
        pdf_magic_def)
  have cm: "shutil_copymode env ?f1 sun_path ?out = Inr ?f2"
    by (simp add: shutil_copymode_def resolve_sun_path sun_disk_lookup sun_distinct)
  have "(?f2(?out := None))(sun_path \<mapsto> RegularFile pdf_magic 420) = sun_disk pdf_magic"
    by (rule ext) (simp add: sun_disk_def sun_distinct sun_disk_lookup)
  then have rn: "os_rename env ?f2 ?out sun_path = Inr (sun_disk pdf_magic)"
    by (simp add: os_rename_def resolve_sun_path sun_disk_lookup sun_distinct)
  have chk: "check_file env (sun_disk pdf_body) sun_path (R_OK OR W_OK)"
    by (simp add: check_file_def os_path_exists_def os_path_isfile_def os_access_def
        resolve_sun_path sun_disk_lookup owner_bits_values R_OK_def W_OK_def)
  show ?thesis
    by (simp add: clean_meta_def chk gp cfg ra outname cm rn record_call_def Let_def
        sun_calls_def)
qed

lemma sun_captured:
  assumes "cwd env = ''/srv/app''"
  shows "cache_delete_file env \<lparr>fs = sun_disk pdf_magic, calls = cs\<rparr>
           (artifact_name request_uuid sun_name)
         = (Inr (Some \<lparr>buffer = pdf_magic, position = 0\<rparr>), \<lparr>fs = app_disk, calls = cs\<rparr>)"
proof -
  have "fs \<lparr>fs = sun_disk pdf_magic, calls = cs\<rparr>
          (resolve env (os_path_abspath env (artifact_name request_uuid sun_name)))
        = Some (RegularFile pdf_magic 420)"
    by (simp add: sun_abspath [OF assms] resolve_sun_path sun_disk_lookup)
  moreover have "R_OK AND owner_bits 420 = R_OK" by (simp add: R_OK_def owner_bits_values)
  ultimately show ?thesis
    by (simp add: cache_delete_file_eval sun_abspath [OF assms] resolve_sun_path
        sun_disk_removed)
qed

lemma sun_splitext: "os_path_splitext sun_name = ([CHR 0xE6, CHR 0x97, CHR 0xA5], ''.pdf'')"
  unfolding sun_name_def by code_simp

lemma decimal_22: "decimal 22 = ''22''"
  by (simp add: hex_digit_def)

lemma escape_sun: "escape_char 26085 = bslash @ ''u65e5''"
  by (simp add: escape_char_def hex_places_def hex_digit_def)

lemma sun_header_points:
  "code_points (''attachment; filename='' @ dquote @ [CHR 0xE6, CHR 0x97, CHR 0xA5]
                  @ ''_metaclean'' @ ''.pdf'' @ dquote)
     = [97, 116, 116, 97, 99, 104, 109, 101, 110, 116, 59, 32, 102, 105, 108, 101, 110, 97,
        109, 101, 61, 34, 26085, 95, 109, 101, 116, 97, 99, 108, 101, 97, 110, 46, 112, 100,
        102, 34]"
  by (simp add: continuation_def dquote_def)

lemma sun_header_error:
  "encode_latin1 (''attachment; filename='' @ dquote @ [CHR 0xE6, CHR 0x97, CHR 0xA5]
                    @ ''_metaclean'' @ ''.pdf'' @ dquote)
     = Inl (ValueError sun_error)"
  unfolding encode_latin1_def sun_header_points
  by (simp add: Let_def decimal_22 escape_sun sun_error_def hex_digit_def)

lemma report_header_encodes:
  "\<exists>bs. encode_latin1 (''attachment; filename='' @ dquote @ ''report'' @ ''_metaclean''
                         @ ''.pdf'' @ dquote) = Inr bs"
  by (simp add: encode_latin1_def Let_def dquote_def)

text \<open>Under the name \<^verbatim>\<open>report.pdf\<close> the cleaned upload is streamed back.\<close>

lemma report_clean_streams:
  "clean app_process pdf_engine idle_world request_uuid ''report.pdf'' pdf_body True OMIT False
     = (Inr (StreamingResponse \<lparr>buffer = pdf_magic, position = 0\<rparr> ''application/octet-stream''
               (''attachment; filename='' @ dquote @ ''report_metaclean.pdf'' @ dquote)),
        \<lparr>fs = app_disk, calls = clean_calls\<rparr>)"
proof -
  have h1: "write_file app_process (fs idle_world) (artifact_name request_uuid ''report.pdf'')
              pdf_body = Inr stored_disk"
    by (simp add: app_written stored_disk_def)
  have h2: "clean_meta app_process pdf_engine PoolProcess (idle_world\<lparr>fs := stored_disk\<rparr>)
        (os_path_abspath app_process (artifact_name request_uuid ''report.pdf''))
        True True False OMIT
     = (Inr True, \<lparr>fs = cleaned_disk, calls = clean_calls\<rparr>)"
    by (simp add: idle_world_fields report_abspath process_fields report_clean_meta)
  have h3: "cache_delete_file app_process \<lparr>fs = cleaned_disk, calls = clean_calls\<rparr>
        (artifact_name request_uuid ''report.pdf'')
     = (Inr (Some \<lparr>buffer = pdf_magic, position = 0\<rparr>), \<lparr>fs = app_disk, calls = clean_calls\<rparr>)"
    by (simp add: report_captured process_fields)
  from report_header_encodes obtain bs
    where h4: "encode_latin1 (''attachment; filename='' @ dquote
                 @ fst (os_path_splitext ''report.pdf'') @ ''_metaclean''
                 @ snd (os_path_splitext ''report.pdf'') @ dquote) = Inr bs"
    by (auto simp: report_splitext)
  from clean_streams [OF h1 h2 h3 h4] show ?thesis by (simp add: report_splitext)
qed

section \<open>The accessibility check\<close>

text \<open>
  Claim C7. \<^verbatim>\<open>__check_file\<close> returns true if and only if the path exists, is a regular
  file and is accessible with the requested permission bits. The clean flow asks for
  read and write: \<^verbatim>\<open>clean_meta\<close>, called in place as \<^verbatim>\<open>clean\<close> calls it, goes on to the
  engine exactly when the check with \<open>R_OK | W_OK\<close> holds. The inspect flow asks for
  read only: \<^verbatim>\<open>get_meta\<close> goes on to the engine exactly when the check with \<open>R_OK\<close> holds.
\<close>

theorem check_file_accessible:
  "check_file env f p mode
     = (os_path_exists env f p \<and> os_path_isfile env f p \<and> os_access env f p mode)
   \<and> (calls (snd (clean_meta env e st w p lw True sb pol)) \<noteq> calls w)
     = check_file env (fs w) p (R_OK OR W_OK)
   \<and> (calls (snd (get_meta env e st w p sb)) \<noteq> calls w)
     = check_file env (fs w) p R_OK"
proof (intro conjI)
  show "check_file env f p mode
     = (os_path_exists env f p \<and> os_path_isfile env f p \<and> os_access env f p mode)"
    by (simp add: check_file_def)
next
  show "(calls (snd (clean_meta env e st w p lw True sb pol)) \<noteq> calls w)
     = check_file env (fs w) p (R_OK OR W_OK)"
  proof (cases "check_file env (fs w) p (R_OK OR W_OK)")
    case True
    then show ?thesis
      using clean_meta_calls_checked [of env w p True e st lw sb pol] by auto
  next
    case False
    then show ?thesis
      using clean_meta_refused [of env w p True e st lw sb pol] by simp
  qed
next
  show "(calls (snd (get_meta env e st w p sb)) \<noteq> calls w) = check_file env (fs w) p R_OK"
  proof (cases "check_file env (fs w) p R_OK")
    case True
    then show ?thesis using get_meta_calls_checked [of env w p e st sb] by auto
  next
    case False
    then show ?thesis using get_meta_refused [of env w p e st sb] by simp
  qed
qed

section \<open>Capturing the cleaned file\<close>

text \<open>
  Claim C9. When \<^verbatim>\<open>os.path.abspath(filename)\<close> names an existing regular file that the
  process may read, \<^verbatim>\<open>cache_delete_file\<close> returns a buffer that holds the whole
  content of the file and is positioned at offset 0, so that a reader gets every
  byte, and the file no longer exists afterwards.
\<close>

theorem cache_delete_file_captures:
  assumes isf: "fs w (resolve env (os_path_abspath env filename)) = Some (RegularFile bs m)"
    and readable: "os_access env (fs w) (os_path_abspath env filename) R_OK"
  shows "\<exists>b w'. cache_delete_file env w filename = (Inr (Some b), w')
           \<and> buffer b = bs \<and> position b = 0 \<and> bytesio_read b = bs
           \<and> \<not> os_path_exists env (fs w') (os_path_abspath env filename)
           \<and> calls w' = calls w"
proof -
  from isf readable have r: "R_OK AND owner_bits m = R_OK"
    by (simp add: os_access_def)
  have rd: "read_file env (fs w) (os_path_abspath env filename) = Inr bs"
    using isf r by (simp add: read_file_def)
  have rm: "os_remove env (fs w) (os_path_abspath env filename)
              = Inr ((fs w)(resolve env (os_path_abspath env filename) := None))"
    using isf by (rule os_remove_file)
  show ?thesis
    by (simp add: cache_delete_file_def rd rm Let_def io_BytesIO_def bytesio_write_def
        bytesio_seek_def bytesio_read_def os_path_exists_def)
qed

theorem cache_delete_file_captures_witness:
  "fs \<lparr>fs = stored_disk, calls = []\<rparr>
      (resolve app_process (os_path_abspath app_process (artifact_name request_uuid ''report.pdf'')))
     = Some (RegularFile pdf_body 420)
   \<and> os_access app_process (fs \<lparr>fs = stored_disk, calls = []\<rparr>)
        (os_path_abspath app_process (artifact_name request_uuid ''report.pdf'')) R_OK
   \<and> (\<exists>b w'. cache_delete_file app_process \<lparr>fs = stored_disk, calls = []\<rparr>
                 (artifact_name request_uuid ''report.pdf'') = (Inr (Some b), w')
           \<and> buffer b = pdf_body \<and> position b = 0 \<and> bytesio_read b = pdf_body
           \<and> \<not> os_path_exists app_process (fs w')
                 (os_path_abspath app_process (artifact_name request_uuid ''report.pdf''))
           \<and> calls w' = calls \<lparr>fs = stored_disk, calls = []\<rparr>)"
proof -
  have h1: "fs \<lparr>fs = stored_disk, calls = []\<rparr>
      (resolve app_process (os_path_abspath app_process (artifact_name request_uuid ''report.pdf'')))
     = Some (RegularFile pdf_body 420)"
    by (simp add: report_abspath process_fields resolve_artifact_path stored_disk_def
        disk_with_lookup)
  have h2: "os_access app_process (fs \<lparr>fs = stored_disk, calls = []\<rparr>)
        (os_path_abspath app_process (artifact_name request_uuid ''report.pdf'')) R_OK"
    by (simp add: os_access_def report_abspath process_fields resolve_artifact_path
        stored_disk_def disk_with_lookup owner_bits_values R_OK_def)
  from cache_delete_file_captures [OF h1 h2] h1 h2 show ?thesis by blast
qed

section \<open>The success path of \<^verbatim>\<open>clean\<close>\<close>

text \<open>
  Claim C10. \<^verbatim>\<open>cache_delete_file\<close> never returns \<open>None\<close> when it returns normally, so a
  request to \<^verbatim>\<open>/clean/\<close> whose worker call returns \<open>True\<close> and whose read-back succeeds is to
  get the streaming response, and not an error. The code does not give it for an
  upload whose name has a character outside Latin-1, here U+65E5 followed by
  \<^verbatim>\<open>.pdf\<close>: the upload is written, the worker call returns \<open>True\<close>, \<^verbatim>\<open>cache_delete_file\<close>
  returns the buffer and removes the file, and then the constructor of the response
  raises on the \<^verbatim>\<open>Content-Disposition\<close> value; the handler for \<^verbatim>\<open>ValueError\<close> answers with
  status 400 and the text of the codec error. The same upload under the name
  \<^verbatim>\<open>report.pdf\<close> is streamed back.
\<close>

theorem clean_fails_outside_latin1:
  "write_file app_process (fs idle_world) (artifact_name request_uuid sun_name) pdf_body
     = Inr (sun_disk pdf_body)
   \<and> clean_meta app_process pdf_engine PoolProcess (idle_world\<lparr>fs := sun_disk pdf_body\<rparr>)
        (os_path_abspath app_process (artifact_name request_uuid sun_name))
        True True False OMIT
     = (Inr True, \<lparr>fs = sun_disk pdf_magic, calls = sun_calls\<rparr>)
   \<and> cache_delete_file app_process \<lparr>fs = sun_disk pdf_magic, calls = sun_calls\<rparr>
        (artifact_name request_uuid sun_name)
     = (Inr (Some \<lparr>buffer = pdf_magic, position = 0\<rparr>), \<lparr>fs = app_disk, calls = sun_calls\<rparr>)
   \<and> clean app_process pdf_engine idle_world request_uuid sun_name pdf_body True OMIT False
     = (Inl (HTTPException 400 sun_error), \<lparr>fs = app_disk, calls = sun_calls\<rparr>)
   \<and> clean app_process pdf_engine idle_world request_uuid ''report.pdf'' pdf_body True OMIT False
     = (Inr (StreamingResponse \<lparr>buffer = pdf_magic, position = 0\<rparr> ''application/octet-stream''
               (''attachment; filename='' @ dquote @ ''report_metaclean.pdf'' @ dquote)),
        \<lparr>fs = app_disk, calls = clean_calls\<rparr>)"
proof -
  have h1: "write_file app_process (fs idle_world) (artifact_name request_uuid sun_name)
              pdf_body = Inr (sun_disk pdf_body)"
    by (rule sun_written)
  have h2: "clean_meta app_process pdf_engine PoolProcess (idle_world\<lparr>fs := sun_disk pdf_body\<rparr>)
        (os_path_abspath app_process (artifact_name request_uuid sun_name))
        True True False OMIT
     = (Inr True, \<lparr>fs = sun_disk pdf_magic, calls = sun_calls\<rparr>)"
    by (simp add: idle_world_fields sun_abspath process_fields sun_clean_meta)
  have h3: "cache_delete_file app_process \<lparr>fs = sun_disk pdf_magic, calls = sun_calls\<rparr>
        (artifact_name request_uuid sun_name)
     = (Inr (Some \<lparr>buffer = pdf_magic, position = 0\<rparr>), \<lparr>fs = app_disk, calls = sun_calls\<rparr>)"
    by (simp add: sun_captured process_fields)
  have h4: "encode_latin1 (''attachment; filename='' @ dquote @ fst (os_path_splitext sun_name)
                @ ''_metaclean'' @ snd (os_path_splitext sun_name) @ dquote)
              = Inl (ValueError sun_error)"
    using sun_header_error by (simp add: sun_splitext)
  from clean_header_rejected [OF h1 h2 h3 h4] h1 h2 h3 report_clean_streams
  show ?thesis by simp
qed

section \<open>Where the engine runs\<close>

text \<open>
  Claim C3. For every request to \<^verbatim>\<open>/show/\<close> and every request to \<^verbatim>\<open>/clean/\<close> the engine is to
  be invoked in the pool of worker processes and awaited, never on the thread that
  handles requests. \<^verbatim>\<open>clean\<close> does so, through \<^verbatim>\<open>run_in_executor\<close>. \<^verbatim>\<open>show\<close> does not: it
  awaits the coroutine \<^verbatim>\<open>get_meta\<close> directly. For the PDF upload below the response of
  \<^verbatim>\<open>show\<close> is the metadata that the engine's extraction returns, and both engine calls
  that produce it are made on the thread of the event loop, while the engine calls
  of \<^verbatim>\<open>clean\<close> for the same upload are made in a process of the pool.
\<close>

theorem show_runs_engine_on_event_loop:
  "show app_process pdf_engine idle_world request_uuid ''report.pdf'' pdf_body False
     = (Inr (JSONResponse [(''creator'', ''writer''), (''sandbox'', ''off'')] ''text/plain''),
        \<lparr>fs = app_disk,
         calls = [GetParser EventLoopThread artifact_path,
                  GetMeta EventLoopThread (pdf_parser artifact_path\<lparr>p_sandbox := False\<rparr>)]\<rparr>)
   \<and> parser_get_meta pdf_engine (pdf_parser artifact_path\<lparr>p_sandbox := False\<rparr>) stored_disk
     = (Inr [(''creator'', ''writer''), (''sandbox'', ''off'')], stored_disk)
   \<and> map call_site
        (calls (snd (show app_process pdf_engine idle_world request_uuid ''report.pdf''
                       pdf_body False)))
     = [EventLoopThread, EventLoopThread]
   \<and> map call_site
        (calls (snd (clean app_process pdf_engine idle_world request_uuid ''report.pdf''
                       pdf_body True OMIT False)))
     = [PoolProcess, PoolProcess]"
proof -
  have wr: "write_file app_process (fs idle_world) (artifact_name request_uuid ''report.pdf'')
              pdf_body = Inr stored_disk"
    by (simp add: app_written stored_disk_def)
  have chk: "check_file app_process stored_disk
               (os_path_abspath app_process (artifact_name request_uuid ''report.pdf'')) R_OK"
    by (simp add: report_abspath process_fields stored_disk_def disk_check owner_bits_values
        R_OK_def)
  have gp: "get_parser pdf_engine stored_disk
              (os_path_abspath app_process (artifact_name request_uuid ''report.pdf''))
            = Inr (Some (pdf_parser artifact_path), Some ''application/pdf'')"
    by (simp add: report_abspath process_fields stored_disk_def pdf_get_parser)
  have gm: "parser_get_meta pdf_engine (pdf_parser artifact_path\<lparr>p_sandbox := False\<rparr>) stored_disk
              = (Inr [(''creator'', ''writer''), (''sandbox'', ''off'')], stored_disk)"
    by (rule report_get_meta)
  have res: "show app_process pdf_engine idle_world request_uuid ''report.pdf'' pdf_body False
     = (Inr (JSONResponse [(''creator'', ''writer''), (''sandbox'', ''off'')] ''text/plain''),
        \<lparr>fs = app_disk,
         calls = [GetParser EventLoopThread artifact_path,
                  GetMeta EventLoopThread (pdf_parser artifact_path\<lparr>p_sandbox := False\<rparr>)]\<rparr>)"
    using show_reached [OF wr chk gp gm stored_removed]
    by (simp add: report_abspath process_fields idle_world_fields)
  have cl: "map call_site
        (calls (snd (clean app_process pdf_engine idle_world request_uuid ''report.pdf''
                       pdf_body True OMIT False)))
     = [PoolProcess, PoolProcess]"
    by (simp add: report_clean_calls clean_calls_def)
  from res gm cl show ?thesis by simp
qed

section \<open>Configuration of the parser\<close>

text \<open>
  Claim C8. The parser that \<^verbatim>\<open>clean_meta\<close> hands to the engine's \<^verbatim>\<open>remove_all\<close> is the
  resolved parser with the unknown-member policy, the lightweight flag and the
  sandbox flag of the call set: when the engine declines on that parser, that is
  the result of \<^verbatim>\<open>clean_meta\<close>, and \<^verbatim>\<open>clean_meta\<close> cannot tell apart two engines that
  agree on the parsers with these three fields. The parser that a request to
  \<^verbatim>\<open>/show/\<close> hands to the engine's \<^verbatim>\<open>get_meta\<close> is the resolved parser with the sandbox
  flag of the request set: the response carries the metadata the engine returns
  for that parser, and \<^verbatim>\<open>show\<close> cannot tell apart two engines that agree on the
  parsers with this flag.
\<close>

theorem configuration_set_before_engine_call:
  "(check_file env (fs w) p (if ip then R_OK OR W_OK else R_OK)
      \<longrightarrow> get_parser e (fs w) p = Inr (Some p0, mt)
      \<longrightarrow> parser_remove_all e
            (p0\<lparr>p_unknown_member_policy := pol, p_lightweight_cleaning := lw, p_sandbox := sb\<rparr>)
            (fs w) = (Inr False, f1)
      \<longrightarrow> clean_meta env e st w p lw ip sb pol
            = (Inr False,
               \<lparr>fs = f1,
                calls = calls w
                  @ [GetParser st p,
                     RemoveAll st (p0\<lparr>p_unknown_member_policy := pol,
                                      p_lightweight_cleaning := lw, p_sandbox := sb\<rparr>)]\<rparr>))
   \<and> (get_parser e' = get_parser e
      \<longrightarrow> (\<forall>q f. p_unknown_member_policy q = pol \<and> p_lightweight_cleaning q = lw
                   \<and> p_sandbox q = sb
                 \<longrightarrow> parser_remove_all e' q f = parser_remove_all e q f)
      \<longrightarrow> clean_meta env e' st w p lw ip sb pol = clean_meta env e st w p lw ip sb pol)
   \<and> (write_file env (fs w) (artifact_name u fn) body = Inr f
      \<longrightarrow> check_file env f (os_path_abspath env (artifact_name u fn)) R_OK
      \<longrightarrow> get_parser e f (os_path_abspath env (artifact_name u fn)) = Inr (Some p1, mt1)
      \<longrightarrow> parser_get_meta e (p1\<lparr>p_sandbox := sb\<rparr>) f = (Inr md, f')
      \<longrightarrow> os_remove env f' (artifact_name u fn) = Inr g
      \<longrightarrow> show env e w u fn body sb
            = (Inr (JSONResponse md ''text/plain''),
               \<lparr>fs = g,
                calls = calls w
                  @ [GetParser EventLoopThread (os_path_abspath env (artifact_name u fn)),
                     GetMeta EventLoopThread (p1\<lparr>p_sandbox := sb\<rparr>)]\<rparr>))
   \<and> (get_parser e' = get_parser e
      \<longrightarrow> (\<forall>q f. p_sandbox q = sb \<longrightarrow> parser_get_meta e' q f = parser_get_meta e q f)
      \<longrightarrow> show env e' w u fn body sb = show env e w u fn body sb)"
proof (intro conjI impI)
  assume "check_file env (fs w) p (if ip then R_OK OR W_OK else R_OK)"
    and "get_parser e (fs w) p = Inr (Some p0, mt)"
    and "parser_remove_all e
            (p0\<lparr>p_unknown_member_policy := pol, p_lightweight_cleaning := lw, p_sandbox := sb\<rparr>)
            (fs w) = (Inr False, f1)"
  then show "clean_meta env e st w p lw ip sb pol
            = (Inr False,
               \<lparr>fs = f1,
                calls = calls w
                  @ [GetParser st p,
                     RemoveAll st (p0\<lparr>p_unknown_member_policy := pol,
                                      p_lightweight_cleaning := lw, p_sandbox := sb\<rparr>)]\<rparr>)"
    by (rule clean_meta_declined)
next
  assume gp: "get_parser e' = get_parser e"
    and ra: "\<forall>q f. p_unknown_member_policy q = pol \<and> p_lightweight_cleaning q = lw
                   \<and> p_sandbox q = sb
                 \<longrightarrow> parser_remove_all e' q f = parser_remove_all e q f"
  show "clean_meta env e' st w p lw ip sb pol = clean_meta env e st w p lw ip sb pol"
    by (rule clean_meta_ext [OF gp]) (simp add: ra)
next
  assume "write_file env (fs w) (artifact_name u fn) body = Inr f"
    and "check_file env f (os_path_abspath env (artifact_name u fn)) R_OK"
    and "get_parser e f (os_path_abspath env (artifact_name u fn)) = Inr (Some p1, mt1)"
    and "parser_get_meta e (p1\<lparr>p_sandbox := sb\<rparr>) f = (Inr md, f')"
    and "os_remove env f' (artifact_name u fn) = Inr g"
  then show "show env e w u fn body sb
            = (Inr (JSONResponse md ''text/plain''),
               \<lparr>fs = g,
                calls = calls w
                  @ [GetParser EventLoopThread (os_path_abspath env (artifact_name u fn)),
                     GetMeta EventLoopThread (p1\<lparr>p_sandbox := sb\<rparr>)]\<rparr>)"
    by (rule show_reached)
next
  assume gp: "get_parser e' = get_parser e"
    and gm: "\<forall>q f. p_sandbox q = sb \<longrightarrow> parser_get_meta e' q f = parser_get_meta e q f"
  show "show env e' w u fn body sb = show env e w u fn body sb"
    by (rule show_ext [OF gp]) (simp add: gm)
qed

theorem configuration_set_before_engine_call_witness:
  "check_file app_process (fs \<lparr>fs = stored_disk, calls = []\<rparr>) artifact_path
     (if True then R_OK OR W_OK else R_OK)
   \<and> get_parser pdf_engine (fs \<lparr>fs = stored_disk, calls = []\<rparr>) artifact_path
       = Inr (Some (pdf_parser artifact_path), Some ''application/pdf'')
   \<and> parser_remove_all pdf_engine
        (pdf_parser artifact_path\<lparr>p_unknown_member_policy := ABORT,
           p_lightweight_cleaning := True, p_sandbox := False\<rparr>)
        (fs \<lparr>fs = stored_disk, calls = []\<rparr>)
       = (Inr False, stored_disk)
   \<and> clean_meta app_process pdf_engine PoolProcess \<lparr>fs = stored_disk, calls = []\<rparr>
        artifact_path True True False ABORT
       = (Inr False,
          \<lparr>fs = stored_disk,
           calls = [GetParser PoolProcess artifact_path,
                    RemoveAll PoolProcess
                      (pdf_parser artifact_path\<lparr>p_unknown_member_policy := ABORT,
                         p_lightweight_cleaning := True, p_sandbox := False\<rparr>)]\<rparr>)
   \<and> get_parser narrow_engine = get_parser pdf_engine
   \<and> clean_meta app_process narrow_engine PoolProcess \<lparr>fs = stored_disk, calls = []\<rparr>
        artifact_path True True False OMIT
       = (Inr True, \<lparr>fs = cleaned_disk, calls = clean_calls\<rparr>)
   \<and> write_file app_process (fs idle_world) (artifact_name request_uuid ''report.pdf'') pdf_body
       = Inr stored_disk
   \<and> check_file app_process stored_disk
        (os_path_abspath app_process (artifact_name request_uuid ''report.pdf'')) R_OK
   \<and> get_parser pdf_engine stored_disk
        (os_path_abspath app_process (artifact_name request_uuid ''report.pdf''))
       = Inr (Some (pdf_parser artifact_path), Some ''application/pdf'')
   \<and> parser_get_meta pdf_engine (pdf_parser artifact_path\<lparr>p_sandbox := False\<rparr>) stored_disk
       = (Inr [(''creator'', ''writer''), (''sandbox'', ''off'')], stored_disk)
   \<and> os_remove app_process stored_disk (artifact_name request_uuid ''report.pdf'')
       = Inr app_disk
   \<and> show app_process pdf_engine idle_world request_uuid ''report.pdf'' pdf_body False
       = (Inr (JSONResponse [(''creator'', ''writer''), (''sandbox'', ''off'')] ''text/plain''),
          \<lparr>fs = app_disk,
           calls = [GetParser EventLoopThread artifact_path,
                    GetMeta EventLoopThread (pdf_parser artifact_path\<lparr>p_sandbox := False\<rparr>)]\<rparr>)
   \<and> show app_process narrow_engine idle_world request_uuid ''report.pdf'' pdf_body False
       = show app_process pdf_engine idle_world request_uuid ''report.pdf'' pdf_body False"
proof -
  let ?w = "\<lparr>fs = stored_disk, calls = []\<rparr>"
  let ?abort = "pdf_parser artifact_path\<lparr>p_unknown_member_policy := ABORT,
                  p_lightweight_cleaning := True, p_sandbox := False\<rparr>"
  have h1: "check_file app_process (fs ?w) artifact_path (if True then R_OK OR W_OK else R_OK)"
    by (simp add: stored_disk_def disk_check owner_bits_values R_OK_def W_OK_def)
  have h2: "get_parser pdf_engine (fs ?w) artifact_path
              = Inr (Some (pdf_parser artifact_path), Some ''application/pdf'')"
    by (simp add: stored_disk_def pdf_get_parser)
  have h3: "parser_remove_all pdf_engine ?abort (fs ?w) = (Inr False, stored_disk)"
    by (simp add: abort_remove_all)
  have h4: "get_parser narrow_engine = get_parser pdf_engine"
    by (rule narrow_get_parser)
  have h5: "\<forall>q f. p_unknown_member_policy q = OMIT \<and> p_lightweight_cleaning q = True
                   \<and> p_sandbox q = False
                 \<longrightarrow> parser_remove_all narrow_engine q f = parser_remove_all pdf_engine q f"
    by (simp add: narrow_remove_all)
  have h6: "write_file app_process (fs idle_world) (artifact_name request_uuid ''report.pdf'')
              pdf_body = Inr stored_disk"
    by (simp add: app_written stored_disk_def)
  have h7: "check_file app_process stored_disk
        (os_path_abspath app_process (artifact_name request_uuid ''report.pdf'')) R_OK"
    by (simp add: report_abspath process_fields stored_disk_def disk_check owner_bits_values
        R_OK_def)
  have h8: "get_parser pdf_engine stored_disk
        (os_path_abspath app_process (artifact_name request_uuid ''report.pdf''))
       = Inr (Some (pdf_parser artifact_path), Some ''application/pdf'')"
    by (simp add: report_abspath process_fields stored_disk_def pdf_get_parser)
  have h9: "parser_get_meta pdf_engine (pdf_parser artifact_path\<lparr>p_sandbox := False\<rparr>) stored_disk
       = (Inr [(''creator'', ''writer''), (''sandbox'', ''off'')], stored_disk)"
    by (rule report_get_meta)
  have h10: "os_remove app_process stored_disk (artifact_name request_uuid ''report.pdf'')
       = Inr app_disk"
    by (rule stored_removed)
  have h11: "\<forall>q f. p_sandbox q = False
                 \<longrightarrow> parser_get_meta narrow_engine q f = parser_get_meta pdf_engine q f"
    by (simp add: narrow_get_meta)
  note declined = configuration_set_before_engine_call [where env = app_process
      and e = pdf_engine and w = ?w and st = PoolProcess and p = artifact_path and lw = True
      and ip = True and sb = False and pol = ABORT and ?p0.0 = "pdf_parser artifact_path"
      and mt = "Some ''application/pdf''" and ?f1.0 = stored_disk]
  note narrowed = configuration_set_before_engine_call [where env = app_process
      and e = pdf_engine and e' = narrow_engine and w = ?w and st = PoolProcess
      and p = artifact_path and lw = True and ip = True and sb = False and pol = OMIT]
  note shown = configuration_set_before_engine_call [where env = app_process
      and e = pdf_engine and e' = narrow_engine and w = idle_world and sb = False
      and u = request_uuid and fn = "''report.pdf''" and body = pdf_body and f = stored_disk
      and ?p1.0 = "pdf_parser artifact_path" and ?mt1.0 = "Some ''application/pdf''"
      and md = "[(''creator'', ''writer''), (''sandbox'', ''off'')]" and f' = stored_disk
      and g = app_disk]
  have c1: "clean_meta app_process pdf_engine PoolProcess ?w artifact_path True True False ABORT
       = (Inr False,
          \<lparr>fs = stored_disk,
           calls = [GetParser PoolProcess artifact_path, RemoveAll PoolProcess ?abort]\<rparr>)"
    using declined h1 h2 h3 by simp
  have c2: "clean_meta app_process narrow_engine PoolProcess ?w artifact_path True True False OMIT
       = (Inr True, \<lparr>fs = cleaned_disk, calls = clean_calls\<rparr>)"
    using narrowed h4 h5 report_clean_meta [of app_process] by simp
  have c3: "show app_process pdf_engine idle_world request_uuid ''report.pdf'' pdf_body False
       = (Inr (JSONResponse [(''creator'', ''writer''), (''sandbox'', ''off'')] ''text/plain''),
          \<lparr>fs = app_disk,
           calls = [GetParser EventLoopThread artifact_path,
                    GetMeta EventLoopThread (pdf_parser artifact_path\<lparr>p_sandbox := False\<rparr>)]\<rparr>)"
    using shown h6 h7 h8 h9 h10 by (simp add: report_abspath process_fields idle_world_fields)
  have c4: "show app_process narrow_engine idle_world request_uuid ''report.pdf'' pdf_body False
       = show app_process pdf_engine idle_world request_uuid ''report.pdf'' pdf_body False"
    using shown h4 h11 by simp
  from h1 h2 h3 h4 h6 h7 h8 h9 h10 c1 c2 c3 c4 show ?thesis by simp
qed

section \<open>Cleanup\<close>

text \<open>
  Claim C1. Let the working directory be as \<^verbatim>\<open>os.getcwd()\<close> reports it, the UUID text
  be that of \<^verbatim>\<open>uuid.uuid4()\<close> and the client's file name contain no slash, and let the
  upload have been written to the artifact path. Then after \<^verbatim>\<open>show\<close> and after \<^verbatim>\<open>clean\<close>,
  whatever the engine did and however the handler was left (return, error response
  or exception), no file exists at the artifact path. The \<^verbatim>\<open>finally\<close> clause of \<^verbatim>\<open>clean\<close>
  does nothing, and keeps the outcome, when the file is already gone, as it is after
  \<^verbatim>\<open>cache_delete_file\<close>.
\<close>

theorem artifact_removed_after_request:
  assumes pc: "proper_cwd env" and uu: "uuid_text u" and ns: "CHR ''/'' \<notin> set fn"
    and wr: "write_file env (fs w) (artifact_name u fn) body = Inr f"
  shows "\<not> os_path_isfile env (fs (snd (show env e w u fn body sb))) (artifact_name u fn)
       \<and> \<not> os_path_isfile env (fs (snd (clean env e w u fn body lw pol sb))) (artifact_name u fn)
       \<and> (\<forall>w1 out. \<not> os_path_isfile env (fs w1) (artifact_name u fn)
              \<longrightarrow> clean_finally env w1 (artifact_name u fn) out = (out, w1))"
proof (intro conjI allI impI)
  show "\<not> os_path_isfile env (fs (snd (show env e w u fn body sb))) (artifact_name u fn)"
    by (simp add: show_unfold [OF wr] show_try_leaves_no_file)
next
  have pl: "plain_name (artifact_name u fn)" by (rule uuid_plain [OF uu ns])
  have "\<not> os_path_isfile env (fs (snd (clean env e w u fn body lw pol sb)))
            (os_path_abspath env (artifact_name u fn))"
    by (simp add: clean_unfold [OF wr] clean_try_world clean_finally_leaves_no_file)
  then show "\<not> os_path_isfile env (fs (snd (clean env e w u fn body lw pol sb)))
                 (artifact_name u fn)"
    by (simp add: isfile_abspath_plain [OF pc pl])
next
  fix w1 :: world and out :: outcome
  assume "\<not> os_path_isfile env (fs w1) (artifact_name u fn)"
  then have "\<not> os_path_isfile env (fs w1) (os_path_abspath env (artifact_name u fn))"
    by (simp add: isfile_abspath_plain [OF pc uuid_plain [OF uu ns]])
  then show "clean_finally env w1 (artifact_name u fn) out = (out, w1)"
    by (rule clean_finally_absent)
qed

theorem artifact_removed_after_request_witness:
  "proper_cwd app_process \<and> uuid_text request_uuid \<and> CHR ''/'' \<notin> set ''report.pdf''
   \<and> write_file app_process (fs idle_world) (artifact_name request_uuid ''report.pdf'') pdf_body
       = Inr stored_disk
   \<and> \<not> os_path_isfile app_process
         (fs (snd (show app_process pdf_engine idle_world request_uuid ''report.pdf'' pdf_body True)))
         (artifact_name request_uuid ''report.pdf'')
   \<and> \<not> os_path_isfile app_process
         (fs (snd (clean app_process pdf_engine idle_world request_uuid ''report.pdf'' pdf_body
                     True OMIT False)))
         (artifact_name request_uuid ''report.pdf'')
   \<and> \<not> os_path_isfile app_process (fs \<lparr>fs = app_disk, calls = clean_calls\<rparr>)
         (artifact_name request_uuid ''report.pdf'')
   \<and> clean_finally app_process \<lparr>fs = app_disk, calls = clean_calls\<rparr>
        (artifact_name request_uuid ''report.pdf'') FellThrough
       = (FellThrough, \<lparr>fs = app_disk, calls = clean_calls\<rparr>)"
proof -
  have h1: "proper_cwd app_process" by (simp add: proper_srv_app process_fields)
  have h2: "uuid_text request_uuid" by (rule uuid_request)
  have h3: "CHR ''/'' \<notin> set ''report.pdf''" by simp
  have h4: "write_file app_process (fs idle_world) (artifact_name request_uuid ''report.pdf'')
              pdf_body = Inr stored_disk"
    by (simp add: app_written stored_disk_def)
  have h5: "\<not> os_path_isfile app_process (fs \<lparr>fs = app_disk, calls = clean_calls\<rparr>)
         (artifact_name request_uuid ''report.pdf'')"
    by (simp add: os_path_isfile_def report_resolve process_fields app_disk_lookup)
  from artifact_removed_after_request [OF h1 h2 h3 h4, where e = pdf_engine and sb = True]
    artifact_removed_after_request [OF h1 h2 h3 h4, where e = pdf_engine and lw = True
      and pol = OMIT and sb = False]
    h1 h2 h3 h4 h5
  show ?thesis by blast
qed

section \<open>Unsupported formats\<close>

text \<open>
  Claim C5. When the upload is written, the accessibility check passes and the
  engine resolves no parser for the artifact, \<^verbatim>\<open>show\<close> and \<^verbatim>\<open>clean\<close> both answer with
  status 400 and the detail \<^verbatim>\<open>format (<type>) is not supported\<close>.
\<close>

theorem unsupported_format_rejected:
  assumes wr: "write_file env (fs w) (artifact_name u fn) body = Inr f"
    and gp: "get_parser e f (os_path_abspath env (artifact_name u fn)) = Inr (None, mtype)"
  shows "(check_file env f (os_path_abspath env (artifact_name u fn)) R_OK
            \<longrightarrow> fst (show env e w u fn body sb)
                  = Inl (HTTPException 400 (''format ('' @ format_opt mtype @ '') is not supported'')))
       \<and> (check_file env f (os_path_abspath env (artifact_name u fn)) (R_OK OR W_OK)
            \<longrightarrow> fst (clean env e w u fn body lw pol sb)
                  = Inl (HTTPException 400 (''format ('' @ format_opt mtype @ '') is not supported'')))"
proof (intro conjI impI)
  assume chk: "check_file env f (os_path_abspath env (artifact_name u fn)) R_OK"
  have rm: "os_remove env (fs (w\<lparr>fs := f\<rparr>)) (artifact_name u fn)
              = Inr (f(resolve env (artifact_name u fn) := None))"
    using written_removable [OF wr] by simp
  show "fst (show env e w u fn body sb)
          = Inl (HTTPException 400 (''format ('' @ format_opt mtype @ '') is not supported''))"
    using chk gp by (simp add: show_unfold [OF wr] show_try_unsupported [OF rm])
next
  assume chk: "check_file env f (os_path_abspath env (artifact_name u fn)) (R_OK OR W_OK)"
  show "fst (clean env e w u fn body lw pol sb)
          = Inl (HTTPException 400 (''format ('' @ format_opt mtype @ '') is not supported''))"
    using chk gp by (simp add: clean_unfold [OF wr] clean_try_unsupported)
qed

theorem unsupported_format_rejected_witness:
  "write_file app_process (fs idle_world) (artifact_name request_uuid ''report.pdf'') text_body
     = Inr garbage_disk
   \<and> get_parser pdf_engine garbage_disk
        (os_path_abspath app_process (artifact_name request_uuid ''report.pdf''))
       = Inr (None, Some ''text/plain'')
   \<and> check_file app_process garbage_disk
        (os_path_abspath app_process (artifact_name request_uuid ''report.pdf'')) R_OK
   \<and> fst (show app_process pdf_engine idle_world request_uuid ''report.pdf'' text_body True)
       = Inl (HTTPException 400 ''format (text/plain) is not supported'')
   \<and> check_file app_process garbage_disk
        (os_path_abspath app_process (artifact_name request_uuid ''report.pdf'')) (R_OK OR W_OK)
   \<and> fst (clean app_process pdf_engine idle_world request_uuid ''report.pdf'' text_body
             False ABORT True)
       = Inl (HTTPException 400 ''format (text/plain) is not supported'')"
proof -
  have h1: "write_file app_process (fs idle_world) (artifact_name request_uuid ''report.pdf'')
              text_body = Inr garbage_disk"
    by (simp add: app_written garbage_disk_def)
  have h2: "get_parser pdf_engine garbage_disk
        (os_path_abspath app_process (artifact_name request_uuid ''report.pdf''))
       = Inr (None, Some ''text/plain'')"
    by (simp add: report_abspath process_fields garbage_disk_def garbage_get_parser)
  have h3: "check_file app_process garbage_disk
        (os_path_abspath app_process (artifact_name request_uuid ''report.pdf'')) R_OK"
    by (simp add: report_abspath process_fields garbage_disk_def disk_check owner_bits_values
        R_OK_def)
  have h4: "check_file app_process garbage_disk
        (os_path_abspath app_process (artifact_name request_uuid ''report.pdf'')) (R_OK OR W_OK)"
    by (simp add: report_abspath process_fields garbage_disk_def disk_check owner_bits_values
        R_OK_def W_OK_def)
  from unsupported_format_rejected [OF h1 h2, where sb = True and lw = False and pol = ABORT]
    h1 h2 h3 h4
  show ?thesis by (simp add: format_opt_def)
qed

section \<open>A failed accessibility check\<close>

text \<open>
  Claim C2. A request to \<^verbatim>\<open>/show/\<close> or \<^verbatim>\<open>/clean/\<close> whose written artifact fails the
  accessibility check is to be answered with a status of the 500 class and a
  message that does not name the path, on both flows. \<^verbatim>\<open>get_meta\<close> does so, raising
  \<^verbatim>\<open>HTTPException(500, "File error")\<close>. \<^verbatim>\<open>clean_meta\<close> returns \<open>False\<close> instead, and \<^verbatim>\<open>clean\<close>
  answers with the status 400 of a cleaning that failed. Under a umask that creates
  the artifact without permission bits the same upload fails both checks: \<^verbatim>\<open>show\<close>
  answers 500 and \<^verbatim>\<open>clean\<close> answers 400.
\<close>

theorem clean_answers_400_when_check_fails:
  "write_file sealed_process (fs idle_world) (artifact_name request_uuid ''report.pdf'') pdf_body
     = Inr sealed_disk
   \<and> \<not> check_file sealed_process sealed_disk
         (os_path_abspath sealed_process (artifact_name request_uuid ''report.pdf'')) R_OK
   \<and> fst (show sealed_process pdf_engine idle_world request_uuid ''report.pdf'' pdf_body True)
       = Inl (HTTPException 500 ''File error'')
   \<and> \<not> check_file sealed_process sealed_disk
         (os_path_abspath sealed_process (artifact_name request_uuid ''report.pdf''))
         (R_OK OR W_OK)
   \<and> fst (clean sealed_process pdf_engine idle_world request_uuid ''report.pdf'' pdf_body
             False ABORT True)
       = Inl (HTTPException 400 ''Failed to remove metadata'')"
proof -
  have wr: "write_file sealed_process (fs idle_world) (artifact_name request_uuid ''report.pdf'')
              pdf_body = Inr sealed_disk"
    by (simp add: sealed_written sealed_disk_def)
  have r: "\<not> check_file sealed_process (fs (idle_world\<lparr>fs := sealed_disk\<rparr>))
         (os_path_abspath sealed_process (artifact_name request_uuid ''report.pdf'')) R_OK"
    by (simp add: report_abspath process_fields sealed_disk_def disk_check owner_bits_values
        R_OK_def)
  have rw: "\<not> check_file sealed_process (fs (idle_world\<lparr>fs := sealed_disk\<rparr>))
         (os_path_abspath sealed_process (artifact_name request_uuid ''report.pdf''))
         (R_OK OR W_OK)"
    by (simp add: report_abspath process_fields sealed_disk_def disk_check owner_bits_values
        R_OK_def W_OK_def)
  have rm: "os_remove sealed_process (fs (idle_world\<lparr>fs := sealed_disk\<rparr>))
              (artifact_name request_uuid ''report.pdf'')
            = Inr (sealed_disk(resolve sealed_process (artifact_name request_uuid ''report.pdf'')
                     := None))"
    using written_removable [OF wr] by simp
  have s: "fst (show sealed_process pdf_engine idle_world request_uuid ''report.pdf'' pdf_body True)
       = Inl (HTTPException 500 ''File error'')"
    by (simp add: show_unfold [OF wr] show_try_refused [OF rm r])
  have c: "fst (clean sealed_process pdf_engine idle_world request_uuid ''report.pdf'' pdf_body
             False ABORT True)
       = Inl (HTTPException 400 ''Failed to remove metadata'')"
    by (simp add: clean_unfold [OF wr] clean_try_refused [OF rw])
  from wr r rw s c show ?thesis by simp
qed

section \<open>The name of the artifact\<close>

text \<open>
  Claim C4, as the code has it. The artifact is written to the relative path made
  of the UUID text immediately followed by the client's file name, with no
  separator between them. When the file name contains no slash this is an entry of
  the working directory itself, and it is the path both handlers go on to use.
\<close>

theorem artifact_is_uuid_then_filename:
  assumes pc: "proper_cwd env" and uu: "uuid_text u" and ns: "CHR ''/'' \<notin> set fn"
    and wr: "write_file env (fs w) (artifact_name u fn) body = Inr f"
  shows "artifact_name u fn = u @ fn
       \<and> resolve env (artifact_name u fn) = os_path_join (cwd env) (u @ fn)
       \<and> os_path_dirname (resolve env (artifact_name u fn)) = cwd env
       \<and> os_path_abspath env (artifact_name u fn) = resolve env (artifact_name u fn)
       \<and> (\<exists>m. f (resolve env (artifact_name u fn)) = Some (RegularFile body m))
       \<and> show env e w u fn body sb = show_try env e (w\<lparr>fs := f\<rparr>) (u @ fn) sb
       \<and> clean env e w u fn body lw pol sb
           = clean_try env e (w\<lparr>fs := f\<rparr>) (u @ fn)
               (fst (os_path_splitext fn)) (snd (os_path_splitext fn)) lw sb pol"
proof -
  have pl: "plain_name (artifact_name u fn)" by (rule uuid_plain [OF uu ns])
  have nm: "artifact_name u fn = u @ fn" by (simp add: artifact_name_def)
  have rs: "resolve env (artifact_name u fn) = os_path_join (cwd env) (u @ fn)"
    using plain_not_abs [OF pl] by (simp add: resolve_def nm)
  show ?thesis
    using rs dirname_resolve_plain [OF pc pl] abspath_plain [OF pc pl] written_is_file [OF wr]
      show_unfold [OF wr, of e sb] clean_unfold [OF wr, of e lw pol sb]
    by (simp add: nm)
qed

text \<open>
  Claim C4 as stated fails on the separator: for the upload \<^verbatim>\<open>report.pdf\<close> the file is
  written at the UUID text followed by \<^verbatim>\<open>report.pdf\<close>, and nothing exists at the name
  with a dash in between.
\<close>

theorem artifact_name_has_no_separator:
  "artifact_name request_uuid ''report.pdf'' \<noteq> request_uuid @ ''-'' @ ''report.pdf''
   \<and> write_file app_process (fs idle_world) (artifact_name request_uuid ''report.pdf'') pdf_body
       = Inr stored_disk
   \<and> stored_disk (resolve app_process (request_uuid @ ''report.pdf''))
       = Some (RegularFile pdf_body 420)
   \<and> stored_disk (resolve app_process (request_uuid @ ''-'' @ ''report.pdf'')) = None"
proof -
  have n: "artifact_name request_uuid ''report.pdf'' \<noteq> request_uuid @ ''-'' @ ''report.pdf''"
    by (simp add: artifact_name_def)
  have wr: "write_file app_process (fs idle_world) (artifact_name request_uuid ''report.pdf'')
              pdf_body = Inr stored_disk"
    by (simp add: app_written stored_disk_def)
  have a: "stored_disk (resolve app_process (request_uuid @ ''report.pdf''))
             = Some (RegularFile pdf_body 420)"
    using report_resolve [of app_process]
    by (simp add: process_fields artifact_name_def stored_disk_def disk_with_lookup)
  have b: "resolve app_process (request_uuid @ ''-'' @ ''report.pdf'')
             = ''/srv/app/3f2b8c1e-7a4d-4e9b-9c2f-5d6a7b8c9d0e-report.pdf''"
    by (simp add: resolve_def os_path_join_def isabs_def process_fields request_uuid_def)
  have c: "stored_disk ''/srv/app/3f2b8c1e-7a4d-4e9b-9c2f-5d6a7b8c9d0e-report.pdf'' = None"
    by (simp add: stored_disk_def disk_with_def app_disk_def artifact_path_def)
  from n wr a b c show ?thesis by simp
qed

theorem artifact_is_uuid_then_filename_witness:
  "proper_cwd app_process \<and> uuid_text request_uuid \<and> CHR ''/'' \<notin> set ''report.pdf''
   \<and> write_file app_process (fs idle_world) (artifact_name request_uuid ''report.pdf'') pdf_body
       = Inr stored_disk
   \<and> artifact_name request_uuid ''report.pdf'' = request_uuid @ ''report.pdf''
   \<and> resolve app_process (artifact_name request_uuid ''report.pdf'')
       = os_path_join (cwd app_process) (request_uuid @ ''report.pdf'')
   \<and> os_path_dirname (resolve app_process (artifact_name request_uuid ''report.pdf''))
       = cwd app_process
   \<and> os_path_abspath app_process (artifact_name request_uuid ''report.pdf'')
       = resolve app_process (artifact_name request_uuid ''report.pdf'')
   \<and> stored_disk (resolve app_process (artifact_name request_uuid ''report.pdf''))
       = Some (RegularFile pdf_body 420)"
proof -
  have h1: "proper_cwd app_process" by (simp add: proper_srv_app process_fields)
  have h2: "uuid_text request_uuid" by (rule uuid_request)
  have h3: "CHR ''/'' \<notin> set ''report.pdf''" by simp
  have h4: "write_file app_process (fs idle_world) (artifact_name request_uuid ''report.pdf'')
              pdf_body = Inr stored_disk"
    by (simp add: app_written stored_disk_def)
  have h5: "stored_disk (resolve app_process (artifact_name request_uuid ''report.pdf''))
       = Some (RegularFile pdf_body 420)"
    by (simp add: report_resolve process_fields stored_disk_def disk_with_lookup)
  from artifact_is_uuid_then_filename [OF h1 h2 h3 h4] h1 h2 h3 h4 h5
  show ?thesis by blast
qed

section \<open>A successful cleaning\<close>

text \<open>
  Claim C6. Let \<^verbatim>\<open>clean_meta\<close> pass its check and resolve a parser, and let the engine's
  \<^verbatim>\<open>remove_all\<close> return \<open>True\<close>, having written its output file and left the original
  in place. Then the permission bits of the original are copied onto the output
  file; when \<open>inplace\<close> is true the output is renamed over the original path, which
  then holds the engine's output with the original permission bits while the output
  path is gone; and \<^verbatim>\<open>clean_meta\<close> returns \<open>True\<close>.
\<close>

theorem clean_meta_installs_output:
  assumes chk: "check_file env (fs w) filename (if inplace then R_OK OR W_OK else R_OK)"
    and gp: "get_parser e (fs w) filename = Inr (Some p, mtype)"
    and ra: "parser_remove_all e
               (p\<lparr>p_unknown_member_policy := policy, p_lightweight_cleaning := lw,
                   p_sandbox := sb\<rparr>) (fs w) = (Inr True, f1)"
    and orig: "f1 (resolve env filename) = Some (RegularFile obs om)"
    and out: "f1 (resolve env (p_output_filename p)) = Some (RegularFile cbs cm)"
  shows "\<exists>w'. clean_meta env e st w filename lw inplace sb policy = (Inr True, w')
           \<and> (if inplace
              then fs w' (resolve env filename) = Some (RegularFile cbs om)
                   \<and> (resolve env (p_output_filename p) \<noteq> resolve env filename
                        \<longrightarrow> fs w' (resolve env (p_output_filename p)) = None)
              else fs w' (resolve env (p_output_filename p)) = Some (RegularFile cbs om)
                   \<and> (resolve env (p_output_filename p) \<noteq> resolve env filename
                        \<longrightarrow> fs w' (resolve env filename) = Some (RegularFile obs om)))"
proof -
  let ?p3 = "p\<lparr>p_unknown_member_policy := policy, p_lightweight_cleaning := lw, p_sandbox := sb\<rparr>"
  let ?o = "resolve env (p_output_filename p)"
  let ?f2 = "f1(?o \<mapsto> RegularFile cbs om)"
  have outname: "p_output_filename ?p3 = p_output_filename p" by simp
  have cm: "shutil_copymode env f1 filename (p_output_filename p) = Inr ?f2"
    using orig out by (simp add: shutil_copymode_def)
  have rn: "os_rename env ?f2 (p_output_filename p) filename
              = Inr ((?f2(?o := None))(resolve env filename \<mapsto> RegularFile cbs om))"
    using orig by (simp add: os_rename_def)
  show ?thesis
    using chk gp ra orig
    by (simp add: clean_meta_def Let_def record_call_def cm rn)
qed

theorem clean_meta_installs_output_witness:
  "check_file app_process (fs \<lparr>fs = stored_disk, calls = []\<rparr>) artifact_path
     (if True then R_OK OR W_OK else R_OK)
   \<and> get_parser pdf_engine (fs \<lparr>fs = stored_disk, calls = []\<rparr>) artifact_path
       = Inr (Some (pdf_parser artifact_path), Some ''application/pdf'')
   \<and> parser_remove_all pdf_engine omit_parser (fs \<lparr>fs = stored_disk, calls = []\<rparr>)
       = (Inr True, stored_disk(artifact_path @ ''.cleaned'' \<mapsto> RegularFile pdf_magic 384))
   \<and> (stored_disk(artifact_path @ ''.cleaned'' \<mapsto> RegularFile pdf_magic 384))
        (resolve app_process artifact_path) = Some (RegularFile pdf_body 420)
   \<and> (stored_disk(artifact_path @ ''.cleaned'' \<mapsto> RegularFile pdf_magic 384))
        (resolve app_process (p_output_filename (pdf_parser artifact_path)))
       = Some (RegularFile pdf_magic 384)
   \<and> (\<exists>w'. clean_meta app_process pdf_engine PoolProcess \<lparr>fs = stored_disk, calls = []\<rparr>
               artifact_path True True False OMIT = (Inr True, w')
          \<and> fs w' (resolve app_process artifact_path) = Some (RegularFile pdf_magic 420)
          \<and> fs w' (resolve app_process (p_output_filename (pdf_parser artifact_path))) = None)"
proof -
  let ?w = "\<lparr>fs = stored_disk, calls = []\<rparr>"
  let ?f1 = "stored_disk(artifact_path @ ''.cleaned'' \<mapsto> RegularFile pdf_magic 384)"
  have h1: "check_file app_process (fs ?w) artifact_path (if True then R_OK OR W_OK else R_OK)"
    by (simp add: stored_disk_def disk_check owner_bits_values R_OK_def W_OK_def)
  have h2: "get_parser pdf_engine (fs ?w) artifact_path
              = Inr (Some (pdf_parser artifact_path), Some ''application/pdf'')"
    by (simp add: stored_disk_def pdf_get_parser)
  have h3: "parser_remove_all pdf_engine
              (pdf_parser artifact_path\<lparr>p_unknown_member_policy := OMIT,
                 p_lightweight_cleaning := True, p_sandbox := False\<rparr>) (fs ?w)
            = (Inr True, ?f1)"
    using omit_remove_all by (simp add: omit_parser_def)
  have on: "p_output_filename (pdf_parser artifact_path) = artifact_path @ ''.cleaned''"
    by (simp add: pdf_parser_def)
  have h4: "?f1 (resolve app_process artifact_path) = Some (RegularFile pdf_body 420)"
    by (simp add: resolve_artifact_path stored_disk_def disk_with_lookup path_distinct)
  have h5: "?f1 (resolve app_process (p_output_filename (pdf_parser artifact_path)))
              = Some (RegularFile pdf_magic 384)"
    by (simp add: on cleaned_resolve)
  have ne: "resolve app_process (p_output_filename (pdf_parser artifact_path))
              \<noteq> resolve app_process artifact_path"
    by (simp add: on cleaned_resolve resolve_artifact_path path_distinct)
  from clean_meta_installs_output [OF h1 h2 h3 h4 h5, of PoolProcess] ne
  have "\<exists>w'. clean_meta app_process pdf_engine PoolProcess ?w
               artifact_path True True False OMIT = (Inr True, w')
          \<and> fs w' (resolve app_process artifact_path) = Some (RegularFile pdf_magic 420)
          \<and> fs w' (resolve app_process (p_output_filename (pdf_parser artifact_path))) = None"
    by auto
  with h1 h2 h3 h4 h5 show ?thesis by (simp add: omit_parser_def)
qed

end
